theory Spec2Isabelle
  imports Main
begin

section \<open>JSON values and Python truthiness\<close>

text \<open>
  Configurations, input schemas and prompt arguments are JSON documents. A Python
  \<^verbatim>\<open>dict\<close> is an association list (lookup with \<open>map_of\<close>). The store keeps such
  a document in a TEXT column through \<^verbatim>\<open>json.dumps\<close> and reads it back through
  \<^verbatim>\<open>json.loads\<close>; the column is represented by the document it denotes.
\<close>

datatype json =
    JNull
  | JBool bool
  | JInt int
  | JStr string
  | JArr "json list"
  | JObj "(string \<times> json) list"

text \<open>Python's \<^verbatim>\<open>bool(v)\<close>, as used by \<^verbatim>\<open>if v\<close> and \<^verbatim>\<open>not v\<close>.\<close>

fun truthy :: "json \<Rightarrow> bool" where
  "truthy JNull = False"
| "truthy (JBool b) = b"
| "truthy (JInt i) = (i \<noteq> 0)"
| "truthy (JStr s) = (s \<noteq> [])"
| "truthy (JArr xs) = (xs \<noteq> [])"
| "truthy (JObj kvs) = (kvs \<noteq> [])"

text \<open>\<^verbatim>\<open>v if v else None\<close> on an optional document.\<close>

definition if_truthy :: "json option \<Rightarrow> json option" where
  "if_truthy v = (case v of None \<Rightarrow> None | Some j \<Rightarrow> if truthy j then Some j else None)"

section \<open>The SQLite store (database.py)\<close>

subsection \<open>Capability dictionaries and table rows\<close>

record tool_cap =
  tool_name :: string
  tool_description :: "string option"
  tool_inputSchema :: "json option"

record resource_cap =
  res_uri :: string
  res_name :: string
  res_description :: "string option"
  res_mimeType :: "string option"

record prompt_cap =
  prompt_name :: string
  prompt_description :: "string option"
  prompt_arguments :: "json option"

record capabilities =
  tools :: "tool_cap list"
  resources :: "resource_cap list"
  prompts :: "prompt_cap list"

record server_row =
  sr_id :: string
  sr_type :: string
  sr_description :: "string option"
  sr_config :: json
  sr_created_at :: string
  sr_last_verified :: "string option"
  sr_status :: string

record tool_row =
  tr_server_id :: string
  tr_name :: string
  tr_description :: "string option"
  tr_input_schema :: "json option"

record resource_row =
  rr_server_id :: string
  rr_uri :: string
  rr_name :: string
  rr_description :: "string option"
  rr_mime_type :: "string option"

record prompt_row =
  pr_server_id :: string
  pr_name :: string
  pr_description :: "string option"
  pr_arguments :: "json option"

text \<open>The four MCP tables, each in rowid (insertion) order.\<close>

record tables =
  mcp_servers :: "server_row list"
  mcp_tools :: "tool_row list"
  mcp_resources :: "resource_row list"
  mcp_prompts :: "prompt_row list"

text \<open>The number of capability rows that reference a server id.\<close>

definition capability_rows :: "tables \<Rightarrow> string \<Rightarrow> nat" where
  "capability_rows t i =
     length (filter (\<lambda>r. tr_server_id r = i) (mcp_tools t))
     + length (filter (\<lambda>r. rr_server_id r = i) (mcp_resources t))
     + length (filter (\<lambda>r. pr_server_id r = i) (mcp_prompts t))"

subsection \<open>Connections\<close>

text \<open>
  A \<^verbatim>\<open>sqlite3.Connection\<close> carries two pieces of per-connection state that the
  code depends on: \<^verbatim>\<open>total_changes\<close>, the number of rows inserted, updated or
  deleted since the connection was opened, and the \<^verbatim>\<open>foreign_keys\<close> pragma, which
  SQLite leaves off on every new connection unless the program turns it on.
  \<^verbatim>\<open>sqlite3.connect\<close> is called in \<^verbatim>\<open>__init__\<close>, \<^verbatim>\<open>_init_database\<close> and
  \<^verbatim>\<open>_get_connection\<close>; none of them issues the pragma.
\<close>

record connection =
  total_changes :: nat
  foreign_keys :: bool

definition sqlite3_connect :: connection where
  "sqlite3_connect = \<lparr>total_changes = 0, foreign_keys = False\<rparr>"

text \<open>
  \<^verbatim>\<open>AgentDatabase\<close>: \<^verbatim>\<open>self.db_path\<close>, \<^verbatim>\<open>self._connection\<close> (set only for the
  path \<^verbatim>\<open>:memory:\<close>) and the content of the database itself.
\<close>

record AgentDatabase =
  db_path :: string
  persistent :: "connection option"
  content :: tables

definition empty_tables :: tables where
  "empty_tables = \<lparr>mcp_servers = [], mcp_tools = [], mcp_resources = [], mcp_prompts = []\<rparr>"

text \<open>
  \<^verbatim>\<open>__init__\<close>: the schema is created with \<^verbatim>\<open>CREATE TABLE IF NOT EXISTS\<close>, which
  keeps the rows of an existing file (\<open>existing\<close>) and changes no row count.
\<close>

definition AgentDatabase_init :: "string \<Rightarrow> tables \<Rightarrow> AgentDatabase" where
  "AgentDatabase_init path existing =
     (if path = '':memory:''
      then \<lparr>db_path = path, persistent = Some sqlite3_connect, content = empty_tables\<rparr>
      else \<lparr>db_path = path, persistent = None, content = existing\<rparr>)"

text \<open>\<^verbatim>\<open>_get_connection\<close>: the persistent connection if there is one, a new one otherwise.\<close>

definition get_connection_db :: "AgentDatabase \<Rightarrow> connection" where
  "get_connection_db db = (case persistent db of Some c \<Rightarrow> c | None \<Rightarrow> sqlite3_connect)"

text \<open>
  Leaving the \<^verbatim>\<open>with\<close> block after \<^verbatim>\<open>commit\<close>: the persistent connection keeps its
  counters, a per-call connection is closed and forgotten.
\<close>

definition release_db :: "AgentDatabase \<Rightarrow> connection \<Rightarrow> tables \<Rightarrow> AgentDatabase" where
  "release_db db c t =
     (case persistent db of
        Some _ \<Rightarrow> db\<lparr>persistent := Some c, content := t\<rparr>
      | None \<Rightarrow> db\<lparr>content := t\<rparr>)"

subsection \<open>SQL statements\<close>

text \<open>
  \<^verbatim>\<open>DELETE FROM mcp_servers WHERE id = ?\<close>. The three capability tables declare
  \<^verbatim>\<open>FOREIGN KEY (server_id) REFERENCES mcp_servers(id) ON DELETE CASCADE\<close>; SQLite
  runs that action only on a connection whose \<^verbatim>\<open>foreign_keys\<close> pragma is on, and
  then counts the rows it removes in \<^verbatim>\<open>total_changes\<close>.
\<close>

definition sql_delete_server :: "connection \<Rightarrow> tables \<Rightarrow> string \<Rightarrow> connection \<times> tables" where
  "sql_delete_server c t i =
     (let hit = filter (\<lambda>r. sr_id r = i) (mcp_servers t);
          t1 = t\<lparr>mcp_servers := filter (\<lambda>r. sr_id r \<noteq> i) (mcp_servers t)\<rparr>
      in if foreign_keys c \<and> hit \<noteq> []
         then (c\<lparr>total_changes := total_changes c + length hit
                    + length (filter (\<lambda>r. tr_server_id r = i) (mcp_tools t))
                    + length (filter (\<lambda>r. rr_server_id r = i) (mcp_resources t))
                    + length (filter (\<lambda>r. pr_server_id r = i) (mcp_prompts t))\<rparr>,
               t1\<lparr>mcp_tools := filter (\<lambda>r. tr_server_id r \<noteq> i) (mcp_tools t),
                  mcp_resources := filter (\<lambda>r. rr_server_id r \<noteq> i) (mcp_resources t),
                  mcp_prompts := filter (\<lambda>r. pr_server_id r \<noteq> i) (mcp_prompts t)\<rparr>)
         else (c\<lparr>total_changes := total_changes c + length hit\<rparr>, t1))"

text \<open>\<^verbatim>\<open>UPDATE mcp_servers SET status = ?, last_verified = ? WHERE id = ?\<close>\<close>

definition sql_update_status ::
  "connection \<Rightarrow> tables \<Rightarrow> string \<Rightarrow> string \<Rightarrow> string \<Rightarrow> connection \<times> tables" where
  "sql_update_status c t st lv i =
     (c\<lparr>total_changes := total_changes c + length (filter (\<lambda>r. sr_id r = i) (mcp_servers t))\<rparr>,
      t\<lparr>mcp_servers :=
           map (\<lambda>r. if sr_id r = i then r\<lparr>sr_status := st, sr_last_verified := Some lv\<rparr> else r)
               (mcp_servers t)\<rparr>)"

subsection \<open>Methods of AgentDatabase\<close>

text \<open>
  \<^verbatim>\<open>delete_mcp_server\<close>: execute the DELETE, commit, and return
  \<^verbatim>\<open>conn.total_changes > 0\<close>.
\<close>

definition delete_mcp_server :: "AgentDatabase \<Rightarrow> string \<Rightarrow> bool \<times> AgentDatabase" where
  "delete_mcp_server db server_id =
     (let conn = get_connection_db db;
          (conn', t') = sql_delete_server conn (content db) server_id
      in (total_changes conn' > 0, release_db db conn' t'))"

text \<open>
  \<^verbatim>\<open>update_mcp_server_status\<close>; \<open>now\<close> is the clock reading used when
  \<^verbatim>\<open>last_verified\<close> is not given.
\<close>

definition update_mcp_server_status ::
  "AgentDatabase \<Rightarrow> string \<Rightarrow> string \<Rightarrow> string option \<Rightarrow> string \<Rightarrow> bool \<times> AgentDatabase" where
  "update_mcp_server_status db server_id st last_verified now =
     (let lv = (case last_verified of None \<Rightarrow> now | Some v \<Rightarrow> v);
          conn = get_connection_db db;
          (conn', t') = sql_update_status conn (content db) st lv server_id
      in (total_changes conn' > 0, release_db db conn' t'))"

text \<open>
  Python exceptions, by class; messages are not modelled. \<^verbatim>\<open>CancelledError\<close> derives
  from \<^verbatim>\<open>BaseException\<close>, so \<^verbatim>\<open>except Exception\<close> does not catch it; every other
  class here derives from \<^verbatim>\<open>Exception\<close>. \<^verbatim>\<open>HTTPException\<close> carries its status code.
  \<^verbatim>\<open>ValidationError\<close> is pydantic's, raised when a model is built from values that
  do not have the declared types; it derives from \<^verbatim>\<open>ValueError\<close>.
\<close>

datatype py_exn =
    IntegrityError
  | ValueError
  | ConnectionError
  | TimeoutError
  | FileNotFoundError
  | MCPClientError
  | KeyError
  | TypeError
  | ValidationError
  | OverflowError
  | OtherException
  | CancelledError
  | HTTPException nat

text \<open>The dictionary returned by \<^verbatim>\<open>get_mcp_server\<close>.\<close>

record server_dict =
  d_id :: string
  d_type :: string
  d_description :: "string option"
  d_config :: json
  d_created_at :: string
  d_last_verified :: "string option"
  d_status :: string
  d_capabilities :: capabilities

text \<open>
  The list comprehensions of \<^verbatim>\<open>get_mcp_server\<close>. Their guard
  \<^verbatim>\<open>json.loads(c) if c else None\<close> tests the stored text, which is NULL or the
  non-empty serialization of a document, so a stored document is returned as it is.
\<close>

definition tool_of_row :: "tool_row \<Rightarrow> tool_cap" where
  "tool_of_row r =
     \<lparr>tool_name = tr_name r, tool_description = tr_description r,
      tool_inputSchema = tr_input_schema r\<rparr>"

definition resource_of_row :: "resource_row \<Rightarrow> resource_cap" where
  "resource_of_row r =
     \<lparr>res_uri = rr_uri r, res_name = rr_name r,
      res_description = rr_description r, res_mimeType = rr_mime_type r\<rparr>"

definition prompt_of_row :: "prompt_row \<Rightarrow> prompt_cap" where
  "prompt_of_row r =
     \<lparr>prompt_name = pr_name r, prompt_description = pr_description r,
      prompt_arguments = pr_arguments r\<rparr>"

text \<open>
  \<^verbatim>\<open>get_mcp_server\<close>: \<^verbatim>\<open>fetchone\<close> on the server row, then the three capability
  selects \<^verbatim>\<open>WHERE server_id = ?\<close>. It only reads, so the store is not returned.
\<close>

definition get_mcp_server :: "AgentDatabase \<Rightarrow> string \<Rightarrow> server_dict option" where
  "get_mcp_server db server_id =
     (case find (\<lambda>r. sr_id r = server_id) (mcp_servers (content db)) of
        None \<Rightarrow> None
      | Some row \<Rightarrow>
          Some \<lparr>d_id = sr_id row, d_type = sr_type row, d_description = sr_description row,
                d_config = sr_config row, d_created_at = sr_created_at row,
                d_last_verified = sr_last_verified row, d_status = sr_status row,
                d_capabilities =
                  \<lparr>tools = map tool_of_row
                             (filter (\<lambda>r. tr_server_id r = server_id) (mcp_tools (content db))),
                   resources = map resource_of_row
                             (filter (\<lambda>r. rr_server_id r = server_id) (mcp_resources (content db))),
                   prompts = map prompt_of_row
                             (filter (\<lambda>r. pr_server_id r = server_id) (mcp_prompts (content db)))\<rparr>\<rparr>)"

text \<open>
  The parameter tuples of the capability INSERTs. Here the guard
  \<^verbatim>\<open>json.dumps(x) if x else None\<close> tests the document itself: an empty object or
  list is stored as NULL.
\<close>

definition row_of_tool :: "string \<Rightarrow> tool_cap \<Rightarrow> tool_row" where
  "row_of_tool server_id t =
     \<lparr>tr_server_id = server_id, tr_name = tool_name t, tr_description = tool_description t,
      tr_input_schema = if_truthy (tool_inputSchema t)\<rparr>"

definition row_of_resource :: "string \<Rightarrow> resource_cap \<Rightarrow> resource_row" where
  "row_of_resource server_id r =
     \<lparr>rr_server_id = server_id, rr_uri = res_uri r, rr_name = res_name r,
      rr_description = res_description r, rr_mime_type = res_mimeType r\<rparr>"

definition row_of_prompt :: "string \<Rightarrow> prompt_cap \<Rightarrow> prompt_row" where
  "row_of_prompt server_id p =
     \<lparr>pr_server_id = server_id, pr_name = prompt_name p, pr_description = prompt_description p,
      pr_arguments = if_truthy (prompt_arguments p)\<rparr>"

text \<open>
  \<^verbatim>\<open>insert_mcp_server\<close>. \<^verbatim>\<open>id TEXT PRIMARY KEY\<close> makes the first INSERT raise
  \<^verbatim>\<open>sqlite3.IntegrityError\<close> when the id is taken; nothing has been written then.
  Otherwise the server row (status \<^verbatim>\<open>'active'\<close>, both timestamps \<open>now\<close>) and one
  row per capability are appended, the transaction is committed, and the record is
  read back with \<^verbatim>\<open>get_mcp_server\<close>. An empty list is falsy, so its loop is skipped,
  which appends the same (no) rows.
\<close>

definition insert_mcp_server ::
  "AgentDatabase \<Rightarrow> string \<Rightarrow> string \<Rightarrow> string option \<Rightarrow> json \<Rightarrow> capabilities \<Rightarrow> string
     \<Rightarrow> py_exn + (server_dict option \<times> AgentDatabase)" where
  "insert_mcp_server db server_id server_type description config caps now =
     (let conn = get_connection_db db; t = content db
      in if list_ex (\<lambda>r. sr_id r = server_id) (mcp_servers t) then Inl IntegrityError
         else
           (let t' = t\<lparr>mcp_servers := mcp_servers t @
                         [\<lparr>sr_id = server_id, sr_type = server_type,
                           sr_description = description, sr_config = config,
                           sr_created_at = now, sr_last_verified = Some now,
                           sr_status = ''active''\<rparr>],
                       mcp_tools := mcp_tools t @ map (row_of_tool server_id) (tools caps),
                       mcp_resources := mcp_resources t
                                          @ map (row_of_resource server_id) (resources caps),
                       mcp_prompts := mcp_prompts t @ map (row_of_prompt server_id) (prompts caps)\<rparr>;
                conn' = conn\<lparr>total_changes := total_changes conn + 1 + length (tools caps)
                                + length (resources caps) + length (prompts caps)\<rparr>;
                db' = release_db db conn' t'
            in Inr (get_mcp_server db' server_id, db')))"

subsection \<open>Capability search\<close>

text \<open>
  The strings of this section are ASCII strings. On them \<^verbatim>\<open>str.lower\<close> and the case
  folding of SQLite's \<^verbatim>\<open>LIKE\<close> are the same map, A..Z to a..z. (Outside ASCII the two
  differ: \<^verbatim>\<open>str.lower\<close> folds every cased letter of Unicode, \<^verbatim>\<open>LIKE\<close> folds none;
  nothing below is stated for such strings.)
\<close>

definition lower_char :: "char \<Rightarrow> char" where
  "lower_char c =
     (let n = (of_char c :: nat) in if 65 \<le> n \<and> n \<le> 90 then char_of (n + 32) else c)"

definition py_lower :: "string \<Rightarrow> string" where
  "py_lower s = map lower_char s"

text \<open>Python's \<^verbatim>\<open>q in s\<close> on strings.\<close>

fun py_in :: "string \<Rightarrow> string \<Rightarrow> bool" where
  "py_in q [] = (q = [])"
| "py_in q (c # cs) = (take (length q) (c # cs) = q \<or> py_in q cs)"

text \<open>
  SQLite's \<^verbatim>\<open>value LIKE pattern\<close> (no ESCAPE clause): in the pattern \<^verbatim>\<open>%\<close> matches
  any run of characters, \<^verbatim>\<open>_\<close> matches exactly one character, any other character
  matches itself up to ASCII case. The pattern is the first argument.
\<close>

fun like_match :: "string \<Rightarrow> string \<Rightarrow> bool" where
  "like_match [] [] = True"
| "like_match [] (c # cs) = False"
| "like_match (p # ps) [] = (p = CHR ''%'' \<and> like_match ps [])"
| "like_match (p # ps) (c # cs) =
     (if p = CHR ''%'' then like_match ps (c # cs) \<or> like_match (p # ps) cs
      else (p = CHR ''_'' \<or> lower_char p = lower_char c) \<and> like_match ps cs)"

text \<open>\<^verbatim>\<open>col LIKE ?\<close> on a nullable column: NULL is not a match.\<close>

definition sql_like :: "string \<Rightarrow> string option \<Rightarrow> bool" where
  "sql_like pat v = (case v of None \<Rightarrow> False | Some s \<Rightarrow> like_match pat s)"

text \<open>The bound parameter \<^verbatim>\<open>f"%{query}%"\<close>.\<close>

definition like_pattern :: "string \<Rightarrow> string" where
  "like_pattern q = CHR ''%'' # q @ [CHR ''%'']"

text \<open>\<^verbatim>\<open>LIMIT ?\<close>: a negative bound means no bound.\<close>

definition sql_limit :: "int \<Rightarrow> 'a list \<Rightarrow> 'a list" where
  "sql_limit n xs = (if n < 0 then xs else take (nat n) xs)"

text \<open>
  \<^verbatim>\<open>conn.execute(sql, params).fetchall()\<close> for a statement whose last parameter is
  the limit, given the rows the statement selects: \<^verbatim>\<open>sqlite3\<close> binds a Python
  \<^verbatim>\<open>int\<close> as a 64-bit signed integer and raises \<^verbatim>\<open>OverflowError\<close> for one that
  does not fit.
\<close>

definition execute_fetchall :: "int \<Rightarrow> 'a list \<Rightarrow> py_exn + 'a list" where
  "execute_fetchall limit rows =
     (if - (2 ^ 63) \<le> limit \<and> limit < 2 ^ 63 then Inr rows else Inl OverflowError)"

text \<open>A \<^verbatim>\<open>for row in rows\<close> loop over the fetched rows, updating \<^verbatim>\<open>results\<close>.\<close>

definition for_rows ::
  "py_exn + 'r list \<Rightarrow> ('a \<Rightarrow> 'r \<Rightarrow> 'a) \<Rightarrow> 'a \<Rightarrow> py_exn + 'a" where
  "for_rows fetched body results =
     (case fetched of Inl e \<Rightarrow> Inl e | Inr rows \<Rightarrow> Inr (foldl body results rows))"

text \<open>Python's \<^verbatim>\<open>xs[:n]\<close>: a negative \<open>n\<close> counts from the end.\<close>

definition py_prefix :: "int \<Rightarrow> 'a list \<Rightarrow> 'a list" where
  "py_prefix n xs = (if n < 0 then take (nat (int (length xs) + n)) xs else take (nat n) xs)"

text \<open>Python truthiness of an optional string (\<^verbatim>\<open>if query:\<close>, \<^verbatim>\<open>if server_type:\<close>).\<close>

definition str_truthy :: "string option \<Rightarrow> bool" where
  "str_truthy s = (case s of None \<Rightarrow> False | Some v \<Rightarrow> v \<noteq> [])"

text \<open>\<^verbatim>\<open>(v or '')\<close> on an optional string.\<close>

definition or_empty :: "string option \<Rightarrow> string" where
  "or_empty s = (case s of None \<Rightarrow> [] | Some v \<Rightarrow> v)"

text \<open>
  The common part of the three WHERE clauses:
  \<^verbatim>\<open>s.status = 'active'\<close> and, for a truthy \<^verbatim>\<open>server_type\<close>, \<^verbatim>\<open>AND s.type = ?\<close>.
\<close>

definition server_filter :: "string option \<Rightarrow> server_row \<Rightarrow> bool" where
  "server_filter server_type s =
     (sr_status s = ''active'' \<and> (str_truthy server_type \<longrightarrow> Some (sr_type s) = server_type))"

text \<open>
  The three \<^verbatim>\<open>SELECT DISTINCT s.id ... JOIN ... LIMIT ?\<close> queries. The join is
  enumerated server by server; SQL fixes no order for it.
\<close>

definition tool_query :: "tables \<Rightarrow> string option \<Rightarrow> string option \<Rightarrow> int \<Rightarrow> string list" where
  "tool_query t server_type query limit =
     sql_limit limit (remdups (concat (map (\<lambda>s. map (\<lambda>r. sr_id s)
        (filter (\<lambda>r. sr_id s = tr_server_id r \<and> server_filter server_type s \<and>
                     (str_truthy query \<longrightarrow>
                        like_match (like_pattern (the query)) (tr_name r) \<or>
                        sql_like (like_pattern (the query)) (tr_description r)))
                (mcp_tools t))) (mcp_servers t))))"

definition resource_query :: "tables \<Rightarrow> string option \<Rightarrow> string option \<Rightarrow> int \<Rightarrow> string list" where
  "resource_query t server_type query limit =
     sql_limit limit (remdups (concat (map (\<lambda>s. map (\<lambda>r. sr_id s)
        (filter (\<lambda>r. sr_id s = rr_server_id r \<and> server_filter server_type s \<and>
                     (str_truthy query \<longrightarrow>
                        like_match (like_pattern (the query)) (rr_name r) \<or>
                        sql_like (like_pattern (the query)) (rr_description r) \<or>
                        like_match (like_pattern (the query)) (rr_uri r)))
                (mcp_resources t))) (mcp_servers t))))"

definition prompt_query :: "tables \<Rightarrow> string option \<Rightarrow> string option \<Rightarrow> int \<Rightarrow> string list" where
  "prompt_query t server_type query limit =
     sql_limit limit (remdups (concat (map (\<lambda>s. map (\<lambda>r. sr_id s)
        (filter (\<lambda>r. sr_id s = pr_server_id r \<and> server_filter server_type s \<and>
                     (str_truthy query \<longrightarrow>
                        like_match (like_pattern (the query)) (pr_name r) \<or>
                        sql_like (like_pattern (the query)) (pr_description r)))
                (mcp_prompts t))) (mcp_servers t))))"

text \<open>The Python-side filters over the capabilities read back.\<close>

definition tool_matches :: "string \<Rightarrow> tool_cap \<Rightarrow> bool" where
  "tool_matches q t =
     (py_in (py_lower q) (py_lower (tool_name t)) \<or>
      py_in (py_lower q) (py_lower (or_empty (tool_description t))))"

definition resource_matches :: "string \<Rightarrow> resource_cap \<Rightarrow> bool" where
  "resource_matches q r =
     (py_in (py_lower q) (py_lower (res_name r)) \<or>
      py_in (py_lower q) (py_lower (or_empty (res_description r))) \<or>
      py_in (py_lower q) (py_lower (res_uri r)))"

definition prompt_matches :: "string \<Rightarrow> prompt_cap \<Rightarrow> bool" where
  "prompt_matches q p =
     (py_in (py_lower q) (py_lower (prompt_name p)) \<or>
      py_in (py_lower q) (py_lower (or_empty (prompt_description p))))"

text \<open>One entry of the result list.\<close>

record search_match =
  m_server_id :: string
  m_server_type :: string
  m_server_description :: "string option"
  m_server_config :: json
  m_matched_tools :: "tool_cap list"
  m_matched_resources :: "resource_cap list"
  m_matched_prompts :: "prompt_cap list"

definition new_match ::
  "server_dict \<Rightarrow> tool_cap list \<Rightarrow> resource_cap list \<Rightarrow> prompt_cap list \<Rightarrow> search_match" where
  "new_match server ts rs ps =
     \<lparr>m_server_id = d_id server, m_server_type = d_type server,
      m_server_description = d_description server, m_server_config = d_config server,
      m_matched_tools = ts, m_matched_resources = rs, m_matched_prompts = ps\<rparr>"

text \<open>
  \<^verbatim>\<open>existing = next((r for r in results if ...), None)\<close> followed by an assignment
  to a key of \<^verbatim>\<open>existing\<close>: the first entry that satisfies \<open>P\<close> is changed in place.
\<close>

fun set_first :: "('a \<Rightarrow> bool) \<Rightarrow> ('a \<Rightarrow> 'a) \<Rightarrow> 'a list \<Rightarrow> 'a list" where
  "set_first P f [] = []"
| "set_first P f (x # xs) = (if P x then f x # xs else x # set_first P f xs)"

text \<open>The body of the loop over \<^verbatim>\<open>tool_rows\<close>.\<close>

definition add_tool_row :: "AgentDatabase \<Rightarrow> string option \<Rightarrow> search_match list \<Rightarrow> string
    \<Rightarrow> search_match list" where
  "add_tool_row db query results row =
     (case get_mcp_server db row of
        None \<Rightarrow> results
      | Some server \<Rightarrow>
          (let matched = (if str_truthy query
                          then filter (tool_matches (the query)) (tools (d_capabilities server))
                          else tools (d_capabilities server))
           in results @ [new_match server matched [] []]))"

text \<open>The body of the loop over \<^verbatim>\<open>resource_rows\<close>.\<close>

definition add_resource_row :: "AgentDatabase \<Rightarrow> string option \<Rightarrow> search_match list \<Rightarrow> string
    \<Rightarrow> search_match list" where
  "add_resource_row db query results row =
     (case get_mcp_server db row of
        None \<Rightarrow> results
      | Some server \<Rightarrow>
          (let matched = (if str_truthy query
                          then filter (resource_matches (the query))
                                      (resources (d_capabilities server))
                          else resources (d_capabilities server))
           in if list_ex (\<lambda>r. m_server_id r = d_id server) results
              then set_first (\<lambda>r. m_server_id r = d_id server)
                             (\<lambda>r. r\<lparr>m_matched_resources := matched\<rparr>) results
              else results @ [new_match server [] matched []]))"

text \<open>The body of the loop over \<^verbatim>\<open>prompt_rows\<close>.\<close>

definition add_prompt_row :: "AgentDatabase \<Rightarrow> string option \<Rightarrow> search_match list \<Rightarrow> string
    \<Rightarrow> search_match list" where
  "add_prompt_row db query results row =
     (case get_mcp_server db row of
        None \<Rightarrow> results
      | Some server \<Rightarrow>
          (let matched = (if str_truthy query
                          then filter (prompt_matches (the query))
                                      (prompts (d_capabilities server))
                          else prompts (d_capabilities server))
           in if list_ex (\<lambda>r. m_server_id r = d_id server) results
              then set_first (\<lambda>r. m_server_id r = d_id server)
                             (\<lambda>r. r\<lparr>m_matched_prompts := matched\<rparr>) results
              else results @ [new_match server [] [] matched]))"

text \<open>\<^verbatim>\<open>not capability_type or capability_type == kind\<close>\<close>

definition kind_selected :: "string option \<Rightarrow> string \<Rightarrow> bool" where
  "kind_selected capability_type kind = (\<not> str_truthy capability_type \<or> capability_type = Some kind)"

text \<open>
  \<^verbatim>\<open>search_mcp_capabilities\<close>: the three blocks in order, then \<^verbatim>\<open>results[:limit]\<close>.
  An exception raised by a statement leaves the method.
\<close>

definition search_mcp_capabilities ::
  "AgentDatabase \<Rightarrow> string option \<Rightarrow> string option \<Rightarrow> string option \<Rightarrow> int
     \<Rightarrow> py_exn + search_match list" where
  "search_mcp_capabilities db query capability_type server_type limit =
     (let t = content db
      in case (if kind_selected capability_type ''tool''
               then for_rows (execute_fetchall limit (tool_query t server_type query limit))
                             (add_tool_row db query) []
               else Inr []) of
           Inl e \<Rightarrow> Inl e
         | Inr r1 \<Rightarrow>
             (case (if kind_selected capability_type ''resource''
                    then for_rows (execute_fetchall limit
                                     (resource_query t server_type query limit))
                                  (add_resource_row db query) r1
                    else Inr r1) of
                Inl e \<Rightarrow> Inl e
              | Inr r2 \<Rightarrow>
                  (case (if kind_selected capability_type ''prompt''
                         then for_rows (execute_fetchall limit
                                          (prompt_query t server_type query limit))
                                       (add_prompt_row db query) r2
                         else Inr r2) of
                     Inl e \<Rightarrow> Inl e
                   | Inr r3 \<Rightarrow> Inr (py_prefix limit r3))))"

section \<open>The downstream MCP server, as the SDK calls observe it\<close>

text \<open>
  The objects returned by the SDK's list operations (\<^verbatim>\<open>Tool\<close>, \<^verbatim>\<open>Resource\<close>,
  \<^verbatim>\<open>PromptArgument\<close>, \<^verbatim>\<open>Prompt\<close> of \<^verbatim>\<open>mcp.types\<close>). They are pydantic models:
  every declared attribute exists on every object, and \<open>None\<close> here is the value
  \<^verbatim>\<open>None\<close> of an optional field. \<^verbatim>\<open>Tool.inputSchema\<close> is a dictionary,
  \<^verbatim>\<open>Resource.uri\<close> is an \<^verbatim>\<open>AnyUrl\<close> object, kept here by its text. The \<open>other\<close>
  component holds the remaining fields of the object (title, annotations and so on,
  according to the SDK's version) as \<^verbatim>\<open>model_dump()\<close> renders them.
\<close>

record sdk_tool =
  st_name :: string
  st_description :: "string option"
  st_inputSchema :: "(string \<times> json) list"
  st_other :: "(string \<times> json) list"

record sdk_resource =
  sres_uri :: string
  sres_name :: string
  sres_description :: "string option"
  sres_mimeType :: "string option"
  sres_other :: "(string \<times> json) list"

record sdk_prompt_arg =
  sa_name :: string
  sa_description :: "string option"
  sa_required :: "bool option"
  sa_other :: "(string \<times> json) list"

record sdk_prompt =
  sp_name :: string
  sp_description :: "string option"
  sp_arguments :: "sdk_prompt_arg list option"
  sp_other :: "(string \<times> json) list"

text \<open>
  What each awaited SDK call does for one server: \<open>None\<close> (or \<open>Inr\<close>) is a normal
  return, \<open>Some e\<close> (or \<open>Inl e\<close>) raises \<open>e\<close>. \<open>ep_open\<close> is \<^verbatim>\<open>__aenter__\<close> of
  \<^verbatim>\<open>stdio_client\<close> or \<^verbatim>\<open>streamablehttp_client\<close>, \<open>ep_session_enter\<close> that of
  \<^verbatim>\<open>ClientSession\<close>; the two exits are their \<^verbatim>\<open>__aexit__\<close>.
\<close>

record endpoint =
  ep_open :: "py_exn option"
  ep_session_enter :: "py_exn option"
  ep_initialize :: "py_exn option"
  ep_list_tools :: "py_exn + sdk_tool list"
  ep_list_resources :: "py_exn + sdk_resource list"
  ep_list_prompts :: "py_exn + sdk_prompt list"
  ep_call_tool :: "json \<Rightarrow> json \<Rightarrow> py_exn + json"
  ep_read_resource :: "json \<Rightarrow> py_exn + json"
  ep_get_prompt :: "json \<Rightarrow> json \<Rightarrow> py_exn + json"
  ep_session_exit :: "py_exn option"
  ep_client_exit :: "py_exn option"

text \<open>The outside world: the server reached for a transport type and a configuration.\<close>

type_synonym world = "string \<Rightarrow> json \<Rightarrow> endpoint"

text \<open>\<^verbatim>\<open>config.get(key)\<close>\<close>

definition dict_get :: "json \<Rightarrow> string \<Rightarrow> json option" where
  "dict_get j k = (case j of JObj kvs \<Rightarrow> map_of kvs k | _ \<Rightarrow> None)"

text \<open>\<^verbatim>\<open>isinstance(v, str)\<close>\<close>

definition is_str :: "json \<Rightarrow> bool" where
  "is_str j = (case j of JStr s \<Rightarrow> True | _ \<Rightarrow> False)"

text \<open>
  A value for a field declared \<^verbatim>\<open>list[str]\<close>, and one for a field declared
  \<^verbatim>\<open>dict[str, str] | None\<close> (the keys of a JSON object are strings). pydantic
  converts neither a number nor \<^verbatim>\<open>None\<close> to \<^verbatim>\<open>str\<close>.
\<close>

definition str_list :: "json \<Rightarrow> bool" where
  "str_list j = (case j of JArr xs \<Rightarrow> list_all is_str xs | _ \<Rightarrow> False)"

definition str_dict_or_none :: "json option \<Rightarrow> bool" where
  "str_dict_or_none j =
     (case j of
        None \<Rightarrow> True
      | Some JNull \<Rightarrow> True
      | Some (JObj kvs) \<Rightarrow>
          list_all (\<lambda>k. case map_of kvs k of None \<Rightarrow> True | Some v \<Rightarrow> is_str v) (map fst kvs)
      | Some _ \<Rightarrow> False)"

text \<open>
  \<^verbatim>\<open>StdioServerParameters(command=..., args=..., env=...)\<close> of the SDK, a pydantic
  model with \<^verbatim>\<open>command: str\<close>, \<^verbatim>\<open>args: list[str]\<close> and
  \<^verbatim>\<open>env: dict[str, str] | None\<close>. \<open>None\<close> for \<open>env\<close> is what \<^verbatim>\<open>config.get("env")\<close>
  gives for a missing key. Building the object opens nothing.
\<close>

definition StdioServerParameters :: "json \<Rightarrow> json \<Rightarrow> json option \<Rightarrow> py_exn + unit" where
  "StdioServerParameters command args env =
     (if is_str command \<and> str_list args \<and> str_dict_or_none env then Inr ()
      else Inl ValidationError)"

text \<open>\<^verbatim>\<open>config.get("args", [])\<close>\<close>

definition args_of :: "json \<Rightarrow> json" where
  "args_of config = (case dict_get config ''args'' of None \<Rightarrow> JArr [] | Some v \<Rightarrow> v)"

section \<open>Discovery (mcp\_client.py)\<close>

text \<open>
  A list comprehension \<^verbatim>\<open>[f(x) for x in xs]\<close> whose element expression may raise:
  the first exception ends it and no list is built.
\<close>

fun comprehension :: "('a \<Rightarrow> py_exn + 'b) \<Rightarrow> 'a list \<Rightarrow> py_exn + 'b list" where
  "comprehension f [] = Inr []"
| "comprehension f (x # xs) =
     (case f x of
        Inl e \<Rightarrow> Inl e
      | Inr y \<Rightarrow> (case comprehension f xs of Inl e \<Rightarrow> Inl e | Inr ys \<Rightarrow> Inr (y # ys)))"

text \<open>
  The dictionary built for a tool. Each \<^verbatim>\<open>hasattr\<close> test of the source is true, so
  the attribute is read. The three values have the types \<^verbatim>\<open>MCPToolCapability\<close>
  declares, so the dictionary is the capability it validates to.
\<close>

definition tool_of_sdk :: "sdk_tool \<Rightarrow> tool_cap" where
  "tool_of_sdk t =
     \<lparr>tool_name = st_name t, tool_description = st_description t,
      tool_inputSchema = Some (JObj (st_inputSchema t))\<rparr>"

text \<open>
  The value under the key \<^verbatim>\<open>uri\<close> of a resource dictionary: the SDK's \<^verbatim>\<open>AnyUrl\<close>
  object, or a \<^verbatim>\<open>str\<close>.
\<close>

datatype uri_value = AnyUrl string | Str string

record resource_dict =
  rd_uri :: uri_value
  rd_name :: string
  rd_description :: "string option"
  rd_mimeType :: "string option"

text \<open>The dictionary built for a resource: \<^verbatim>\<open>"uri": resource.uri\<close>, the object as it is.\<close>

definition resource_of_sdk :: "sdk_resource \<Rightarrow> resource_dict" where
  "resource_of_sdk r =
     \<lparr>rd_uri = AnyUrl (sres_uri r), rd_name = sres_name r,
      rd_description = sres_description r, rd_mimeType = sres_mimeType r\<rparr>"

text \<open>
  The dictionary built for a prompt argument: \<^verbatim>\<open>hasattr(arg, 'required')\<close> is true,
  so \<^verbatim>\<open>required\<close> is the attribute's value, \<^verbatim>\<open>None\<close> included.
\<close>

definition opt_str :: "string option \<Rightarrow> json" where
  "opt_str s = (case s of None \<Rightarrow> JNull | Some v \<Rightarrow> JStr v)"

definition arg_fields :: "sdk_prompt_arg \<Rightarrow> (string \<times> json) list" where
  "arg_fields a =
     [(''name'', JStr (sa_name a)), (''description'', opt_str (sa_description a)),
      (''required'', (case sa_required a of None \<Rightarrow> JNull | Some b \<Rightarrow> JBool b))]"

definition arg_of_sdk :: "sdk_prompt_arg \<Rightarrow> json" where
  "arg_of_sdk a = JObj (arg_fields a)"

text \<open>
  The dictionary built for a prompt. \<^verbatim>\<open>hasattr(prompt, 'arguments')\<close> is true, so
  the inner comprehension iterates \<^verbatim>\<open>prompt.arguments\<close>; when that is \<^verbatim>\<open>None\<close>
  the iteration raises \<^verbatim>\<open>TypeError\<close>. The values have the types
  \<^verbatim>\<open>MCPPromptCapability\<close> declares.
\<close>

definition prompt_of_sdk :: "sdk_prompt \<Rightarrow> py_exn + prompt_cap" where
  "prompt_of_sdk p =
     (case sp_arguments p of
        None \<Rightarrow> Inl TypeError
      | Some as \<Rightarrow>
          Inr \<lparr>prompt_name = sp_name p, prompt_description = sp_description p,
               prompt_arguments = Some (JArr (map arg_of_sdk as))\<rparr>)"

text \<open>
  One \<^verbatim>\<open>try: ... except Exception: pass\<close> block: the list call is awaited, then the
  comprehension runs over its result. The variable was set to \<^verbatim>\<open>[]\<close> before the
  block and is assigned only if both complete; an \<^verbatim>\<open>Exception\<close> raised by either
  is dropped.
\<close>

definition best_effort :: "(py_exn + 'a list) \<Rightarrow> ('a \<Rightarrow> py_exn + 'b) \<Rightarrow> py_exn + 'b list" where
  "best_effort r conv =
     (case (case r of Inl e \<Rightarrow> Inl e | Inr xs \<Rightarrow> comprehension conv xs) of
        Inr ys \<Rightarrow> Inr ys
      | Inl e \<Rightarrow> if e = CancelledError then Inl e else Inr [])"

text \<open>
  \<^verbatim>\<open>MCPResourceCapability\<close> built from a dictionary: \<^verbatim>\<open>uri\<close> is declared \<^verbatim>\<open>str\<close>,
  and pydantic does not convert a URL object to \<^verbatim>\<open>str\<close>.
\<close>

definition MCPResourceCapability :: "resource_dict \<Rightarrow> py_exn + resource_cap" where
  "MCPResourceCapability d =
     (case rd_uri d of
        Str s \<Rightarrow> Inr \<lparr>res_uri = s, res_name = rd_name d, res_description = rd_description d,
                       res_mimeType = rd_mimeType d\<rparr>
      | AnyUrl u \<Rightarrow> Inl ValidationError)"

text \<open>
  \<^verbatim>\<open>MCPServerCapabilities(tools=tools, resources=resources, prompts=prompts)\<close>: each
  dictionary is validated against its capability model.
\<close>

definition MCPServerCapabilities ::
  "tool_cap list \<Rightarrow> resource_dict list \<Rightarrow> prompt_cap list \<Rightarrow> py_exn + capabilities" where
  "MCPServerCapabilities ts rs ps =
     (case comprehension MCPResourceCapability rs of
        Inl e \<Rightarrow> Inl e
      | Inr rs' \<Rightarrow> Inr \<lparr>tools = ts, resources = rs', prompts = ps\<rparr>)"

text \<open>
  The body of the inner \<^verbatim>\<open>async with\<close>: initialize, the three blocks, and the
  construction of the result.
\<close>

definition discover_body :: "endpoint \<Rightarrow> py_exn + capabilities" where
  "discover_body ep =
     (case ep_initialize ep of
        Some e \<Rightarrow> Inl e
      | None \<Rightarrow>
          (case best_effort (ep_list_tools ep) (\<lambda>t. Inr (tool_of_sdk t)) of
             Inl e \<Rightarrow> Inl e
           | Inr ts \<Rightarrow>
               (case best_effort (ep_list_resources ep) (\<lambda>r. Inr (resource_of_sdk r)) of
                  Inl e \<Rightarrow> Inl e
                | Inr rs \<Rightarrow>
                    (case best_effort (ep_list_prompts ep) prompt_of_sdk of
                       Inl e \<Rightarrow> Inl e
                     | Inr ps \<Rightarrow> MCPServerCapabilities ts rs ps))))"

text \<open>Leaving an \<^verbatim>\<open>async with\<close>: an exception raised by \<^verbatim>\<open>__aexit__\<close> replaces the outcome.\<close>

definition leaving :: "py_exn option \<Rightarrow> py_exn + 'a \<Rightarrow> py_exn + 'a" where
  "leaving ex r = (case ex of Some e \<Rightarrow> Inl e | None \<Rightarrow> r)"

text \<open>The two nested \<^verbatim>\<open>async with\<close> statements.\<close>

definition discover_session :: "endpoint \<Rightarrow> py_exn + capabilities" where
  "discover_session ep =
     (case ep_open ep of
        Some e \<Rightarrow> Inl e
      | None \<Rightarrow>
          leaving (ep_client_exit ep)
            (case ep_session_enter ep of
               Some e \<Rightarrow> Inl e
             | None \<Rightarrow> leaving (ep_session_exit ep) (discover_body ep)))"

text \<open>
  The outer \<^verbatim>\<open>try\<close>: every \<^verbatim>\<open>Exception\<close> leaves as \<^verbatim>\<open>MCPClientError\<close>.
\<close>

definition as_client_error :: "py_exn + 'a \<Rightarrow> py_exn + 'a" where
  "as_client_error r =
     (case r of Inl e \<Rightarrow> if e = CancelledError then Inl e else Inl MCPClientError | Inr v \<Rightarrow> Inr v)"

text \<open>
  \<^verbatim>\<open>_discover_stdio_capabilities\<close>: a falsy \<^verbatim>\<open>command\<close> is refused before the
  \<^verbatim>\<open>try\<close>; inside it the server parameters are built first.
\<close>

definition discover_stdio_capabilities :: "world \<Rightarrow> json \<Rightarrow> py_exn + capabilities" where
  "discover_stdio_capabilities w config =
     (case dict_get config ''command'' of
        None \<Rightarrow> Inl MCPClientError
      | Some command \<Rightarrow>
          if \<not> truthy command then Inl MCPClientError
          else as_client_error
                 (case StdioServerParameters command (args_of config) (dict_get config ''env'') of
                    Inl e \<Rightarrow> Inl e
                  | Inr params \<Rightarrow> discover_session (w ''stdio'' config)))"

text \<open>\<^verbatim>\<open>_discover_http_capabilities\<close>, for the types \<^verbatim>\<open>http\<close> and \<^verbatim>\<open>sse\<close>.\<close>

definition discover_http_capabilities :: "world \<Rightarrow> string \<Rightarrow> json \<Rightarrow> py_exn + capabilities" where
  "discover_http_capabilities w server_type config =
     (case dict_get config ''url'' of
        None \<Rightarrow> Inl MCPClientError
      | Some url \<Rightarrow>
          if \<not> truthy url then Inl MCPClientError
          else as_client_error (discover_session (w server_type config)))"

text \<open>\<^verbatim>\<open>MCPClient(server_type, config).discover_capabilities()\<close>\<close>

definition discover_capabilities :: "world \<Rightarrow> string \<Rightarrow> json \<Rightarrow> py_exn + capabilities" where
  "discover_capabilities w server_type config =
     (if server_type = ''stdio'' then discover_stdio_capabilities w config
      else if server_type \<in> set [''http'', ''sse'']
           then discover_http_capabilities w server_type config
      else Inl MCPClientError)"

section \<open>The connection manager (mcp\_connection\_manager.py)\<close>

text \<open>
  Context-manager objects are identified by the number they were allocated under. The
  \<open>trace\<close> records every \<^verbatim>\<open>__aenter__\<close>, \<^verbatim>\<open>initialize\<close> and \<^verbatim>\<open>__aexit__\<close> the
  manager has awaited, in order; it is not a field of the source, it is what the source
  did to the outside.
\<close>

datatype event =
    ClientEnter nat
  | SessionEnter nat
  | SessionInitialize nat
  | SessionExit nat
  | ClientExit nat

record MCPConnection =
  c_server_id :: string
  c_server_type :: string
  c_config :: json
  c_session :: nat
  c_client_context :: "nat option"
  c_session_context :: "nat option"
  c_connected_at :: int
  c_last_activity :: int
  c_request_count :: nat
  c_is_healthy :: bool
  c_error_message :: "string option"

record MCPConnectionManager =
  connections :: "string \<rightharpoonup> MCPConnection"
  locks :: "string set"
  allocated :: nat
  trace :: "event list"

text \<open>\<^verbatim>\<open>MCPConnection.__init__\<close>\<close>

definition MCPConnection_init ::
  "string \<Rightarrow> string \<Rightarrow> json \<Rightarrow> nat \<Rightarrow> nat \<Rightarrow> nat \<Rightarrow> int \<Rightarrow> MCPConnection" where
  "MCPConnection_init server_id server_type config session client_ctx session_ctx now =
     \<lparr>c_server_id = server_id, c_server_type = server_type, c_config = config,
      c_session = session, c_client_context = Some client_ctx,
      c_session_context = Some session_ctx, c_connected_at = now, c_last_activity = now,
      c_request_count = 0, c_is_healthy = True, c_error_message = None\<rparr>"

text \<open>\<^verbatim>\<open>MCPConnection.update_activity\<close>\<close>

definition update_activity :: "int \<Rightarrow> MCPConnection \<Rightarrow> MCPConnection" where
  "update_activity now conn =
     conn\<lparr>c_last_activity := now, c_request_count := c_request_count conn + 1\<rparr>"

text \<open>\<^verbatim>\<open>MCPConnection.health_check\<close>: \<^verbatim>\<open>list_tools\<close> under a five second timeout.\<close>

definition conn_health_check :: "world \<Rightarrow> MCPConnection \<Rightarrow> (py_exn + bool) \<times> MCPConnection" where
  "conn_health_check w conn =
     (case ep_list_tools (w (c_server_type conn) (c_config conn)) of
        Inr _ \<Rightarrow> (Inr True, conn\<lparr>c_is_healthy := True, c_error_message := None\<rparr>)
      | Inl e \<Rightarrow>
          if e = CancelledError then (Inl e, conn)
          else (Inr False, conn\<lparr>c_is_healthy := False, c_error_message := Some ''error''\<rparr>))"

text \<open>\<^verbatim>\<open>MCPConnectionManager.health_check\<close>\<close>

definition health_check ::
  "world \<Rightarrow> MCPConnectionManager \<Rightarrow> string \<Rightarrow> (py_exn + bool) \<times> MCPConnectionManager" where
  "health_check w m server_id =
     (case connections m server_id of
        None \<Rightarrow> (Inr False, m)
      | Some conn \<Rightarrow>
          (let (r, conn') = conn_health_check w conn
           in (r, m\<lparr>connections := (connections m)(server_id \<mapsto> conn')\<rparr>)))"

text \<open>
  The steps shared by \<^verbatim>\<open>_create_stdio_connection\<close> and \<^verbatim>\<open>_create_http_connection\<close>
  after the configuration has been read: create and enter the client context, create
  and enter the session context, initialize, build the \<^verbatim>\<open>MCPConnection\<close>. A step that
  raises leaves what was entered before it as it is.
\<close>

definition open_connection ::
  "endpoint \<Rightarrow> MCPConnectionManager \<Rightarrow> string \<Rightarrow> string \<Rightarrow> json \<Rightarrow> int
     \<Rightarrow> (py_exn + MCPConnection) \<times> MCPConnectionManager" where
  "open_connection ep m server_id server_type config now =
     (let c = allocated m; m1 = m\<lparr>allocated := c + 1\<rparr>
      in case ep_open ep of
           Some e \<Rightarrow> (Inl e, m1)
         | None \<Rightarrow>
             (let s = c + 1;
                  m2 = m1\<lparr>allocated := s + 1, trace := trace m1 @ [ClientEnter c]\<rparr>
              in case ep_session_enter ep of
                   Some e \<Rightarrow> (Inl e, m2)
                 | None \<Rightarrow>
                     (let m3 = m2\<lparr>trace := trace m2 @ [SessionEnter s]\<rparr>
                      in case ep_initialize ep of
                           Some e \<Rightarrow> (Inl e, m3)
                         | None \<Rightarrow>
                             (Inr (MCPConnection_init server_id server_type config s c s now),
                              m3\<lparr>trace := trace m3 @ [SessionInitialize s]\<rparr>))))"

text \<open>
  \<^verbatim>\<open>_create_stdio_connection\<close>: \<^verbatim>\<open>config["command"]\<close> raises \<^verbatim>\<open>KeyError\<close> for
  a missing key; the server parameters are built before anything is opened.
\<close>

definition create_stdio_connection ::
  "world \<Rightarrow> MCPConnectionManager \<Rightarrow> string \<Rightarrow> server_dict \<Rightarrow> int
     \<Rightarrow> (py_exn + MCPConnection) \<times> MCPConnectionManager" where
  "create_stdio_connection w m server_id server now =
     (let config = d_config server
      in case dict_get config ''command'' of
           None \<Rightarrow> (Inl KeyError, m)
         | Some command \<Rightarrow>
             (case StdioServerParameters command (args_of config) (dict_get config ''env'') of
                Inl e \<Rightarrow> (Inl e, m)
              | Inr params \<Rightarrow>
                  open_connection (w ''stdio'' config) m server_id ''stdio'' config now))"

text \<open>
  \<^verbatim>\<open>_create_http_connection\<close>: \<^verbatim>\<open>config["url"]\<close> raises \<^verbatim>\<open>KeyError\<close> for a
  missing key; creating the client context checks nothing.
\<close>

definition create_http_connection ::
  "world \<Rightarrow> MCPConnectionManager \<Rightarrow> string \<Rightarrow> server_dict \<Rightarrow> int
     \<Rightarrow> (py_exn + MCPConnection) \<times> MCPConnectionManager" where
  "create_http_connection w m server_id server now =
     (let config = d_config server
      in case dict_get config ''url'' of
           Some url \<Rightarrow>
             open_connection (w (d_type server) config) m server_id (d_type server) config now
         | None \<Rightarrow> (Inl KeyError, m))"

text \<open>
  \<^verbatim>\<open>_create_connection\<close>: an unknown id raises \<^verbatim>\<open>ValueError\<close> before the \<^verbatim>\<open>try\<close>;
  inside it, the connection is stored only after it has been built, and every
  \<^verbatim>\<open>Exception\<close> leaves as \<^verbatim>\<open>ConnectionError\<close>.
\<close>

definition create_connection ::
  "world \<Rightarrow> AgentDatabase \<Rightarrow> MCPConnectionManager \<Rightarrow> string \<Rightarrow> int
     \<Rightarrow> (py_exn + MCPConnection) \<times> MCPConnectionManager" where
  "create_connection w db m server_id now =
     (case get_mcp_server db server_id of
        None \<Rightarrow> (Inl ValueError, m)
      | Some server \<Rightarrow>
          (case (if d_type server = ''stdio'' then create_stdio_connection w m server_id server now
                 else if d_type server \<in> set [''http'', ''sse'']
                      then create_http_connection w m server_id server now
                 else (Inl ValueError, m)) of
             (Inr conn, m') \<Rightarrow> (Inr conn, m'\<lparr>connections := (connections m')(server_id \<mapsto> conn)\<rparr>)
           | (Inl e, m') \<Rightarrow> (if e = CancelledError then Inl e else Inl ConnectionError, m')))"

text \<open>
  One guarded \<^verbatim>\<open>__aexit__\<close> inside \<^verbatim>\<open>_close_connection\<close>: an \<^verbatim>\<open>Exception\<close> is
  logged and dropped; what is returned is the exception that still propagates.
\<close>

definition guarded_exit :: "py_exn option \<Rightarrow> py_exn option" where
  "guarded_exit ex = (case ex of Some e \<Rightarrow> if e = CancelledError then Some e else None | None \<Rightarrow> None)"

text \<open>
  \<^verbatim>\<open>_close_connection\<close>: nothing for an id that is not pooled; otherwise the session
  context is left first, then the client context, and the \<^verbatim>\<open>finally\<close> clause removes
  the entry whatever happened. The first component is the exception that leaves the
  call, if any.
\<close>

definition close_connection ::
  "world \<Rightarrow> MCPConnectionManager \<Rightarrow> string \<Rightarrow> py_exn option \<times> MCPConnectionManager" where
  "close_connection w m server_id =
     (case connections m server_id of
        None \<Rightarrow> (None, m)
      | Some conn \<Rightarrow>
          (let ep = w (c_server_type conn) (c_config conn);
               (x1, m1) = (case c_session_context conn of
                             None \<Rightarrow> (None, m)
                           | Some s \<Rightarrow> (guarded_exit (ep_session_exit ep),
                                        m\<lparr>trace := trace m @ [SessionExit s]\<rparr>));
               (x2, m2) = (if x1 \<noteq> None then (x1, m1)
                           else case c_client_context conn of
                                  None \<Rightarrow> (None, m1)
                                | Some c \<Rightarrow> (guarded_exit (ep_client_exit ep),
                                             m1\<lparr>trace := trace m1 @ [ClientExit c]\<rparr>))
           in (x2, m2\<lparr>connections := (connections m2)(server_id := None)\<rparr>)))"

text \<open>
  \<^verbatim>\<open>get_connection\<close>, run from its first statement to its return with no other task
  scheduled in between. The per-server lock is created on first use and is free.
\<close>

definition get_connection ::
  "world \<Rightarrow> AgentDatabase \<Rightarrow> MCPConnectionManager \<Rightarrow> string \<Rightarrow> int
     \<Rightarrow> (py_exn + MCPConnection) \<times> MCPConnectionManager" where
  "get_connection w db m server_id now =
     (let locked = (\<lambda>m0.
            (let m1 = m0\<lparr>locks := insert server_id (locks m0)\<rparr>
             in case connections m1 server_id of
                  Some conn \<Rightarrow>
                    (Inr (update_activity now conn),
                     m1\<lparr>connections := (connections m1)(server_id \<mapsto> update_activity now conn)\<rparr>)
                | None \<Rightarrow> create_connection w db m1 server_id now))
      in case connections m server_id of
           Some conn \<Rightarrow>
             if c_is_healthy conn
             then (Inr (update_activity now conn),
                   m\<lparr>connections := (connections m)(server_id \<mapsto> update_activity now conn)\<rparr>)
             else (case close_connection w m server_id of
                     (Some e, m') \<Rightarrow> (Inl e, m')
                   | (None, m') \<Rightarrow> locked m')
         | None \<Rightarrow> locked m)"

text \<open>Every pooled connection carries its client context and its session context.\<close>

definition both_contexts :: "MCPConnectionManager \<Rightarrow> bool" where
  "both_contexts m =
     (\<forall>i conn. connections m i = Some conn \<longrightarrow>
         c_client_context conn \<noteq> None \<and> c_session_context conn \<noteq> None)"

section \<open>Registry routes (main.py)\<close>

text \<open>The module globals \<^verbatim>\<open>db\<close> and \<^verbatim>\<open>connection_manager\<close>.\<close>

record app =
  app_db :: AgentDatabase
  app_manager :: MCPConnectionManager

text \<open>\<^verbatim>\<open>DELETE /mcp/servers/{server_id}\<close>: 404 when the store reports no success.\<close>

definition delete_mcp_server_route :: "app \<Rightarrow> string \<Rightarrow> (py_exn + unit) \<times> app" where
  "delete_mcp_server_route a server_id =
     (let (success, db') = delete_mcp_server (app_db a) server_id
      in (if \<not> success then Inl (HTTPException 404) else Inr (), a\<lparr>app_db := db'\<rparr>))"

text \<open>The body returned by a successful verification.\<close>

record verify_response =
  v_server_id :: string
  v_status :: string
  v_message :: string
  v_capabilities :: capabilities

text \<open>
  \<^verbatim>\<open>POST /mcp/servers/{server_id}/verify\<close>; \<open>now\<close> is the clock reading taken by
  \<^verbatim>\<open>update_mcp_server_status\<close>.
\<close>

definition verify_mcp_server :: "world \<Rightarrow> app \<Rightarrow> string \<Rightarrow> string \<Rightarrow> (py_exn + verify_response) \<times> app" where
  "verify_mcp_server w a server_id now =
     (case get_mcp_server (app_db a) server_id of
        None \<Rightarrow> (Inl (HTTPException 404), a)
      | Some server \<Rightarrow>
          (case discover_capabilities w (d_type server) (d_config server) of
             Inr caps \<Rightarrow>
               (Inr \<lparr>v_server_id = server_id, v_status = ''active'',
                     v_message = ''Server is reachable and responding'',
                     v_capabilities = caps\<rparr>,
                a\<lparr>app_db := snd (update_mcp_server_status (app_db a) server_id ''active'' None now)\<rparr>)
           | Inl e \<Rightarrow>
               if e = MCPClientError
               then (Inl (HTTPException 503),
                     a\<lparr>app_db := snd (update_mcp_server_status (app_db a) server_id ''error'' None now)\<rparr>)
               else (Inl e, a)))"

section \<open>The gateway message endpoint (mcp\_gateway\_routes.py)\<close>

text \<open>\<^verbatim>\<open>Optional[Union[str, int]]\<close>, the type of a JSON-RPC id.\<close>

datatype rpc_id = IdStr string | IdInt int

record JSONRPCRequest =
  rq_jsonrpc :: string
  rq_id :: "rpc_id option"
  rq_method :: string
  rq_params :: "(string \<times> json) list option"

record JSONRPCError =
  e_code :: int
  e_message :: string
  e_data :: "json option"

record JSONRPCResponse =
  rs_jsonrpc :: string
  rs_id :: "rpc_id option"
  rs_result :: "json option"
  rs_error :: "JSONRPCError option"

text \<open>\<^verbatim>\<open>JSONRPCResponse(id=..., result=...)\<close> and \<^verbatim>\<open>JSONRPCResponse(id=..., error=...)\<close>\<close>

definition rpc_result :: "rpc_id option \<Rightarrow> json \<Rightarrow> JSONRPCResponse" where
  "rpc_result i r = \<lparr>rs_jsonrpc = ''2.0'', rs_id = i, rs_result = Some r, rs_error = None\<rparr>"

definition rpc_error :: "rpc_id option \<Rightarrow> int \<Rightarrow> string \<Rightarrow> JSONRPCResponse" where
  "rpc_error i code msg =
     \<lparr>rs_jsonrpc = ''2.0'', rs_id = i, rs_result = None,
      rs_error = Some \<lparr>e_code = code, e_message = msg, e_data = None\<rparr>\<rparr>"

text \<open>
  \<^verbatim>\<open>model_dump()\<close> of the listed SDK objects, as the response carries them: every
  field of the object, a URL as its text.
\<close>

definition tool_dump :: "sdk_tool \<Rightarrow> json" where
  "tool_dump t =
     JObj ([(''name'', JStr (st_name t)), (''description'', opt_str (st_description t)),
            (''inputSchema'', JObj (st_inputSchema t))] @ st_other t)"

definition resource_dump :: "sdk_resource \<Rightarrow> json" where
  "resource_dump r =
     JObj ([(''uri'', JStr (sres_uri r)), (''name'', JStr (sres_name r)),
            (''description'', opt_str (sres_description r)),
            (''mimeType'', opt_str (sres_mimeType r))] @ sres_other r)"

definition arg_dump :: "sdk_prompt_arg \<Rightarrow> json" where
  "arg_dump a = JObj (arg_fields a @ sa_other a)"

definition prompt_dump :: "sdk_prompt \<Rightarrow> json" where
  "prompt_dump p =
     JObj ([(''name'', JStr (sp_name p)), (''description'', opt_str (sp_description p)),
            (''arguments'', (case sp_arguments p of None \<Rightarrow> JNull
                                                   | Some as \<Rightarrow> JArr (map arg_dump as)))]
           @ sp_other p)"

text \<open>\<^verbatim>\<open>params.get(key)\<close> and \<^verbatim>\<open>params.get("arguments", {})\<close> on \<^verbatim>\<open>message.params or {}\<close>.\<close>

definition param :: "JSONRPCRequest \<Rightarrow> string \<Rightarrow> json option" where
  "param message k = (case rq_params message of None \<Rightarrow> None | Some kvs \<Rightarrow> map_of kvs k)"

definition arguments_param :: "JSONRPCRequest \<Rightarrow> json" where
  "arguments_param message = (case param message ''arguments'' of None \<Rightarrow> JObj [] | Some v \<Rightarrow> v)"

text \<open>\<^verbatim>\<open>not v\<close> for the result of \<^verbatim>\<open>params.get\<close>: true for a missing key and for a falsy value.\<close>

definition py_not :: "json option \<Rightarrow> bool" where
  "py_not v = (case v of None \<Rightarrow> True | Some j \<Rightarrow> \<not> truthy j)"

text \<open>The \<^verbatim>\<open>if\<close>/\<^verbatim>\<open>elif\<close> chain on \<^verbatim>\<open>message.method\<close>, for a connection that was obtained.\<close>

definition dispatch_message :: "endpoint \<Rightarrow> JSONRPCRequest \<Rightarrow> py_exn + JSONRPCResponse" where
  "dispatch_message ep message =
     (let method = rq_method message
      in if method = ''tools/list''
         then (case ep_list_tools ep of
                 Inl e \<Rightarrow> Inl e
               | Inr ts \<Rightarrow> Inr (rpc_result (rq_id message)
                                   (JObj [(''tools'', JArr (map tool_dump ts))])))
         else if method = ''resources/list''
         then (case ep_list_resources ep of
                 Inl e \<Rightarrow> Inl e
               | Inr rs \<Rightarrow> Inr (rpc_result (rq_id message)
                                   (JObj [(''resources'', JArr (map resource_dump rs))])))
         else if method = ''prompts/list''
         then (case ep_list_prompts ep of
                 Inl e \<Rightarrow> Inl e
               | Inr ps \<Rightarrow> Inr (rpc_result (rq_id message)
                                   (JObj [(''prompts'', JArr (map prompt_dump ps))])))
         else if method = ''tools/call''
         then (if py_not (param message ''name'')
               then Inr (rpc_error (rq_id message) (- 32602) ''Missing required parameter: name'')
               else (case ep_call_tool ep (the (param message ''name'')) (arguments_param message) of
                       Inl e \<Rightarrow> Inl e
                     | Inr r \<Rightarrow> Inr (rpc_result (rq_id message) r)))
         else if method = ''resources/read''
         then (if py_not (param message ''uri'')
               then Inr (rpc_error (rq_id message) (- 32602) ''Missing required parameter: uri'')
               else (case ep_read_resource ep (the (param message ''uri'')) of
                       Inl e \<Rightarrow> Inl e
                     | Inr r \<Rightarrow> Inr (rpc_result (rq_id message) r)))
         else if method = ''prompts/get''
         then (if py_not (param message ''name'')
               then Inr (rpc_error (rq_id message) (- 32602) ''Missing required parameter: name'')
               else (case ep_get_prompt ep (the (param message ''name'')) (arguments_param message) of
                       Inl e \<Rightarrow> Inl e
                     | Inr r \<Rightarrow> Inr (rpc_result (rq_id message) r)))
         else Inr (rpc_error (rq_id message) (- 32601) (''Method not found: '' @ method)))"

text \<open>The \<^verbatim>\<open>except\<close> clauses of the endpoint, in order.\<close>

definition gateway_error :: "py_exn \<Rightarrow> py_exn" where
  "gateway_error e =
     (if e = ValueError \<or> e = ValidationError then HTTPException 404
      else if e = ConnectionError then HTTPException 503
      else if e = TimeoutError then HTTPException 504
      else if e = CancelledError then CancelledError
      else HTTPException 500)"

text \<open>\<^verbatim>\<open>POST /mcp/gateway/{server_id}/message\<close>\<close>

definition gateway_message_proxy ::
  "world \<Rightarrow> AgentDatabase \<Rightarrow> MCPConnectionManager \<Rightarrow> string \<Rightarrow> JSONRPCRequest \<Rightarrow> int
     \<Rightarrow> (py_exn + JSONRPCResponse) \<times> MCPConnectionManager" where
  "gateway_message_proxy w db m server_id message now =
     (case get_connection w db m server_id now of
        (Inl e, m') \<Rightarrow> (Inl (gateway_error e), m')
      | (Inr conn, m') \<Rightarrow>
          (case dispatch_message (w (c_server_type conn) (c_config conn)) message of
             Inl e \<Rightarrow> (Inl (gateway_error e), m')
           | Inr r \<Rightarrow> (Inr r, m')))"

section \<open>Concurrent calls of get\_connection\<close>

text \<open>
  The event loop runs one task at a time, and a task gives up control only at an
  \<^verbatim>\<open>await\<close> that really suspends: the three awaits of opening a connection, the two
  \<^verbatim>\<open>__aexit__\<close> awaits of \<^verbatim>\<open>_close_connection\<close>, and \<^verbatim>\<open>lock.acquire()\<close> on a lock
  that is taken. (\<^verbatim>\<open>update_activity\<close> contains no await and runs through.) A task
  that calls \<^verbatim>\<open>get_connection(server_id)\<close> is therefore, between two turns, at one
  of the points below; what it has in its local variables is kept with the point.
\<close>

datatype task =
    Start
  | Closing_session MCPConnection
  | Closing_client MCPConnection
  | Waiting
  | Entering_client string json nat
  | Entering_session string json nat nat
  | Initializing string json nat nat
  | Returned MCPConnection
  | Raised py_exn

text \<open>
  The tasks share the manager and the \<^verbatim>\<open>asyncio.Lock\<close> of the server id.
  \<open>opens\<close> counts the \<^verbatim>\<open>client_context.__aenter__()\<close> calls awaited so far, that
  is, the transport opens that were started.
\<close>

record pool_system =
  manager :: MCPConnectionManager
  lock_held :: bool
  tasks :: "task list"
  opens :: nat

definition set_task :: "nat \<Rightarrow> task \<Rightarrow> pool_system \<Rightarrow> pool_system" where
  "set_task k t s = s\<lparr>tasks := (tasks s)[k := t]\<rparr>"

text \<open>
  What \<^verbatim>\<open>_create_connection\<close> does before its first await: the type dispatch and the
  reading of the configuration, as in \<open>create_stdio_connection\<close> and
  \<open>create_http_connection\<close>.
\<close>

definition connect_target :: "server_dict \<Rightarrow> py_exn + (string \<times> json)" where
  "connect_target server =
     (if d_type server = ''stdio''
      then (case dict_get (d_config server) ''command'' of
              None \<Rightarrow> Inl KeyError
            | Some command \<Rightarrow>
                (case StdioServerParameters command (args_of (d_config server))
                        (dict_get (d_config server) ''env'') of
                   Inl e \<Rightarrow> Inl e
                 | Inr params \<Rightarrow> Inr (''stdio'', d_config server)))
      else if d_type server \<in> set [''http'', ''sse'']
      then (case dict_get (d_config server) ''url'' of
              Some url \<Rightarrow> Inr (d_type server, d_config server)
            | None \<Rightarrow> Inl KeyError)
      else Inl ValueError)"

text \<open>
  An exception leaves the \<^verbatim>\<open>async with lock\<close> block: the lock is released and the
  task ends with it. Inside the \<^verbatim>\<open>try\<close> of \<^verbatim>\<open>_create_connection\<close> an
  \<^verbatim>\<open>Exception\<close> has become \<^verbatim>\<open>ConnectionError\<close> first.
\<close>

definition raise_locked :: "nat \<Rightarrow> py_exn \<Rightarrow> pool_system \<Rightarrow> pool_system" where
  "raise_locked k e s = set_task k (Raised e) (s\<lparr>lock_held := False\<rparr>)"

definition connect_failed :: "nat \<Rightarrow> py_exn \<Rightarrow> pool_system \<Rightarrow> pool_system" where
  "connect_failed k e s =
     raise_locked k (if e = CancelledError then e else ConnectionError) s"

text \<open>
  The body of \<^verbatim>\<open>async with lock\<close>, entered by task \<open>k\<close> holding the lock, up to its
  return or its first await.
\<close>

definition locked_section ::
  "AgentDatabase \<Rightarrow> string \<Rightarrow> int \<Rightarrow> nat \<Rightarrow> pool_system \<Rightarrow> pool_system" where
  "locked_section db server_id now k s =
     (let m = manager s
      in case connections m server_id of
           Some conn \<Rightarrow>
             set_task k (Returned (update_activity now conn))
               (s\<lparr>manager := m\<lparr>connections :=
                                  (connections m)(server_id \<mapsto> update_activity now conn)\<rparr>,
                  lock_held := False\<rparr>)
         | None \<Rightarrow>
             (case get_mcp_server db server_id of
                None \<Rightarrow> raise_locked k ValueError s
              | Some server \<Rightarrow>
                  (case connect_target server of
                     Inl e \<Rightarrow> connect_failed k e s
                   | Inr (ty, cfg) \<Rightarrow>
                       set_task k (Entering_client ty cfg (allocated m))
                         (s\<lparr>manager := m\<lparr>allocated := allocated m + 1\<rparr>,
                            opens := opens s + 1\<rparr>))))"

text \<open>
  \<^verbatim>\<open>lock = self._get_lock(server_id)\<close> and \<^verbatim>\<open>async with lock\<close>: a free lock is
  taken at once, a taken one suspends the task. Which waiting task gets a released
  lock is left to the schedule; asyncio hands it over in arrival order, which is one
  of the orders covered here.
\<close>

definition acquire ::
  "AgentDatabase \<Rightarrow> string \<Rightarrow> int \<Rightarrow> nat \<Rightarrow> pool_system \<Rightarrow> pool_system" where
  "acquire db server_id now k s =
     (let s1 = s\<lparr>manager := (manager s)\<lparr>locks := insert server_id (locks (manager s))\<rparr>\<rparr>
      in if lock_held s1 then set_task k Waiting s1
         else locked_section db server_id now k (s1\<lparr>lock_held := True\<rparr>))"

text \<open>
  The \<^verbatim>\<open>finally\<close> clause of \<^verbatim>\<open>_close_connection\<close>: \<^verbatim>\<open>del self.connections[server_id]\<close>
  raises \<^verbatim>\<open>KeyError\<close> when another task has removed the entry in the meantime. After it
  an exception still in flight (\<open>x\<close>) goes on, otherwise the task goes to the lock.
\<close>

definition finally_del ::
  "AgentDatabase \<Rightarrow> string \<Rightarrow> int \<Rightarrow> nat \<Rightarrow> py_exn option \<Rightarrow> pool_system \<Rightarrow> pool_system" where
  "finally_del db server_id now k x s =
     (let m = manager s
      in case connections m server_id of
           None \<Rightarrow> set_task k (Raised KeyError) s
         | Some _ \<Rightarrow>
             (let s1 = s\<lparr>manager := m\<lparr>connections := (connections m)(server_id := None)\<rparr>\<rparr>
              in case x of
                   Some e \<Rightarrow> set_task k (Raised e) s1
                 | None \<Rightarrow> acquire db server_id now k s1))"

text \<open>\<^verbatim>\<open>_close_connection\<close> from the client context on, the session context being done.\<close>

definition close_client ::
  "AgentDatabase \<Rightarrow> string \<Rightarrow> int \<Rightarrow> nat \<Rightarrow> MCPConnection \<Rightarrow> pool_system \<Rightarrow> pool_system" where
  "close_client db server_id now k conn s =
     (case c_client_context conn of
        None \<Rightarrow> finally_del db server_id now k None s
      | Some c \<Rightarrow>
          set_task k (Closing_client conn)
            (s\<lparr>manager := (manager s)\<lparr>trace := trace (manager s) @ [ClientExit c]\<rparr>\<rparr>))"

text \<open>
  One turn of task \<open>k\<close>: from the point where it is, to its next suspension or its end.
  A finished task, a task waiting for a taken lock, and a number that names no task
  leave the system as it is.
\<close>

definition step ::
  "world \<Rightarrow> AgentDatabase \<Rightarrow> string \<Rightarrow> nat \<times> int \<Rightarrow> pool_system \<Rightarrow> pool_system" where
  "step w db server_id turn s =
     (let k = fst turn; now = snd turn; m = manager s
      in if k \<ge> length (tasks s) then s
         else case tasks s ! k of
           Start \<Rightarrow>
             (case connections m server_id of
                None \<Rightarrow> acquire db server_id now k s
              | Some conn \<Rightarrow>
                  if c_is_healthy conn
                  then set_task k (Returned (update_activity now conn))
                         (s\<lparr>manager := m\<lparr>connections :=
                               (connections m)(server_id \<mapsto> update_activity now conn)\<rparr>\<rparr>)
                  else (case c_session_context conn of
                          Some x \<Rightarrow>
                            set_task k (Closing_session conn)
                              (s\<lparr>manager := m\<lparr>trace := trace m @ [SessionExit x]\<rparr>\<rparr>)
                        | None \<Rightarrow> close_client db server_id now k conn s))
         | Closing_session conn \<Rightarrow>
             (case guarded_exit (ep_session_exit (w (c_server_type conn) (c_config conn))) of
                Some e \<Rightarrow> finally_del db server_id now k (Some e) s
              | None \<Rightarrow> close_client db server_id now k conn s)
         | Closing_client conn \<Rightarrow>
             finally_del db server_id now k
               (guarded_exit (ep_client_exit (w (c_server_type conn) (c_config conn)))) s
         | Waiting \<Rightarrow>
             if lock_held s then s
             else locked_section db server_id now k (s\<lparr>lock_held := True\<rparr>)
         | Entering_client ty cfg c \<Rightarrow>
             (case ep_open (w ty cfg) of
                Some e \<Rightarrow> connect_failed k e s
              | None \<Rightarrow>
                  set_task k (Entering_session ty cfg c (allocated m))
                    (s\<lparr>manager := m\<lparr>allocated := allocated m + 1,
                                     trace := trace m @ [ClientEnter c]\<rparr>\<rparr>))
         | Entering_session ty cfg c x \<Rightarrow>
             (case ep_session_enter (w ty cfg) of
                Some e \<Rightarrow> connect_failed k e s
              | None \<Rightarrow>
                  set_task k (Initializing ty cfg c x)
                    (s\<lparr>manager := m\<lparr>trace := trace m @ [SessionEnter x]\<rparr>\<rparr>))
         | Initializing ty cfg c x \<Rightarrow>
             (case ep_initialize (w ty cfg) of
                Some e \<Rightarrow> connect_failed k e s
              | None \<Rightarrow>
                  set_task k (Returned (MCPConnection_init server_id ty cfg x c x now))
                    (s\<lparr>manager := m\<lparr>trace := trace m @ [SessionInitialize x],
                                     connections := (connections m)(server_id \<mapsto>
                                        MCPConnection_init server_id ty cfg x c x now)\<rparr>,
                       lock_held := False\<rparr>))
         | Returned conn \<Rightarrow> s
         | Raised e \<Rightarrow> s)"

text \<open>A schedule is the list of turns the event loop gives, each with the clock reading.\<close>

fun run ::
  "world \<Rightarrow> AgentDatabase \<Rightarrow> string \<Rightarrow> (nat \<times> int) list \<Rightarrow> pool_system \<Rightarrow> pool_system" where
  "run w db server_id [] s = s"
| "run w db server_id (turn # turns) s = run w db server_id turns (step w db server_id turn s)"

text \<open>\<open>n\<close> calls of \<^verbatim>\<open>get_connection\<close> that have been made and not yet run, on a manager \<open>m\<close>.\<close>

definition calls :: "nat \<Rightarrow> MCPConnectionManager \<Rightarrow> pool_system" where
  "calls n m = \<lparr>manager = m, lock_held = False, tasks = replicate n Start, opens = 0\<rparr>"

text \<open>A task that is inside the three awaits of opening a connection.\<close>

fun is_opening :: "task \<Rightarrow> bool" where
  "is_opening (Entering_client ty cfg c) = True"
| "is_opening (Entering_session ty cfg c x) = True"
| "is_opening (Initializing ty cfg c x) = True"
| "is_opening t = False"

text \<open>The session object a finished task has received, if it received one.\<close>

fun received :: "task \<Rightarrow> nat option" where
  "received (Returned conn) = Some (c_session conn)"
| "received t = None"

text \<open>A task that is inside \<^verbatim>\<open>_close_connection\<close>.\<close>

fun is_closing :: "task \<Rightarrow> bool" where
  "is_closing (Closing_session conn) = True"
| "is_closing (Closing_client conn) = True"
| "is_closing t = False"

text \<open>
  What holds between any two turns when the calls started on a pool without an entry
  for the id: the entry, once there, is healthy; no task is closing; and the lock is
  held exactly while one task is opening.
\<close>

definition single_flight :: "string \<Rightarrow> pool_system \<Rightarrow> bool" where
  "single_flight i s =
     ((\<forall>conn. connections (manager s) i = Some conn \<longrightarrow> c_is_healthy conn) \<and>
      (\<forall>t \<in> set (tasks s). \<not> is_closing t) \<and>
      length (filter is_opening (tasks s)) = (if lock_held s then 1 else 0))"

text \<open>
  What holds in addition when no open fails: an open has been started exactly when
  the lock is held or the entry is there, never both, and every task that has
  returned holds the session of the entry.
\<close>

definition opened_once :: "string \<Rightarrow> pool_system \<Rightarrow> bool" where
  "opened_once i s =
     ((lock_held s \<longrightarrow> connections (manager s) i = None) \<and>
      opens s = (if lock_held s \<or> connections (manager s) i \<noteq> None then 1 else 0) \<and>
      (\<forall>t \<in> set (tasks s). \<forall>x. received t = Some x \<longrightarrow>
          map_option c_session (connections (manager s) i) = Some x))"

section \<open>Example states\<close>

text \<open>
  A registered stdio server \<^verbatim>\<open>s1\<close> advertising one tool \<^verbatim>\<open>echo\<close>, in a file-backed
  store and in an in-memory one; a downstream server that answers every call, and one
  that is down.
\<close>

definition echo_tool :: tool_cap where
  "echo_tool =
     \<lparr>tool_name = ''echo'', tool_description = Some ''Echo'',
      tool_inputSchema = Some (JObj [(''type'', JStr ''object'')])\<rparr>"

definition echo_caps :: capabilities where
  "echo_caps = \<lparr>tools = [echo_tool], resources = [], prompts = []\<rparr>"

definition echo_config :: json where
  "echo_config = JObj [(''command'', JStr ''echo-mcp''), (''args'', JArr []), (''env'', JObj [])]"

definition file_db :: AgentDatabase where
  "file_db =
     snd (projr (insert_mcp_server (AgentDatabase_init ''agent_reg.db'' empty_tables)
                   ''s1'' ''stdio'' None echo_config echo_caps ''2024-01-01T00:00:00''))"

definition memory_db :: AgentDatabase where
  "memory_db =
     snd (projr (insert_mcp_server (AgentDatabase_init '':memory:'' empty_tables)
                   ''s1'' ''stdio'' None echo_config echo_caps ''2024-01-01T00:00:00''))"

definition echo_sdk_tool :: sdk_tool where
  "echo_sdk_tool =
     \<lparr>st_name = ''echo'', st_description = Some ''Echo'',
      st_inputSchema = [(''type'', JStr ''object'')], st_other = []\<rparr>"

definition greet_sdk_prompt :: sdk_prompt where
  "greet_sdk_prompt =
     \<lparr>sp_name = ''greet'', sp_description = None, sp_arguments = Some [], sp_other = []\<rparr>"

definition up_endpoint :: endpoint where
  "up_endpoint =
     \<lparr>ep_open = None, ep_session_enter = None, ep_initialize = None,
      ep_list_tools = Inr [echo_sdk_tool],
      ep_list_resources = Inl OtherException,
      ep_list_prompts = Inr [greet_sdk_prompt],
      ep_call_tool = (\<lambda>name args. Inr (JObj [(''content'', JArr [args]), (''isError'', JBool False)])),
      ep_read_resource = (\<lambda>uri. Inl OtherException),
      ep_get_prompt = (\<lambda>name args. Inr (JObj [(''messages'', JArr [])])),
      ep_session_exit = None, ep_client_exit = None\<rparr>"

definition down_endpoint :: endpoint where
  "down_endpoint =
     \<lparr>ep_open = Some FileNotFoundError, ep_session_enter = None, ep_initialize = None,
      ep_list_tools = Inl OtherException, ep_list_resources = Inl OtherException,
      ep_list_prompts = Inl OtherException,
      ep_call_tool = (\<lambda>name args. Inl OtherException),
      ep_read_resource = (\<lambda>uri. Inl OtherException),
      ep_get_prompt = (\<lambda>name args. Inl OtherException),
      ep_session_exit = None, ep_client_exit = None\<rparr>"

definition up_world :: world where
  "up_world server_type config = up_endpoint"

definition down_world :: world where
  "down_world server_type config = down_endpoint"

definition empty_manager :: MCPConnectionManager where
  "empty_manager = \<lparr>connections = Map.empty, locks = {}, allocated = 0, trace = []\<rparr>"

text \<open>The pool after one successful \<^verbatim>\<open>get_connection('s1')\<close> at time 100.\<close>

definition pooled_manager :: MCPConnectionManager where
  "pooled_manager = snd (get_connection up_world file_db empty_manager ''s1'' 100)"

text \<open>The same pool after a health check that found the server down.\<close>

definition stale_manager :: MCPConnectionManager where
  "stale_manager = snd (health_check down_world pooled_manager ''s1'')"

definition example_app :: app where
  "example_app = \<lparr>app_db = file_db, app_manager = pooled_manager\<rparr>"

text \<open>What discovery reports for the answering server: the tool and one prompt without arguments.\<close>

definition greet_caps :: capabilities where
  "greet_caps =
     \<lparr>tools = [echo_tool], resources = [],
      prompts = [\<lparr>prompt_name = ''greet'', prompt_description = None,
                  prompt_arguments = Some (JArr [])\<rparr>]\<rparr>"

text \<open>The file-backed store after registering a second server with those capabilities.\<close>

definition greet_db :: AgentDatabase where
  "greet_db =
     snd (projr (insert_mcp_server file_db ''s2'' ''stdio'' None echo_config greet_caps
                   ''2024-01-02T00:00:00''))"

text \<open>
  Three more answering servers. The first has no tools (the call raises), one resource
  and the prompt \<^verbatim>\<open>greet\<close>. The second has the tool, no resources, and two prompts, one
  of them with two arguments. The third is the second with a third prompt whose
  \<^verbatim>\<open>arguments\<close> field is \<^verbatim>\<open>None\<close>.
\<close>

definition readme_sdk_resource :: sdk_resource where
  "readme_sdk_resource =
     \<lparr>sres_uri = ''file:///README.md'', sres_name = ''readme'', sres_description = None,
      sres_mimeType = Some ''text/markdown'', sres_other = []\<rparr>"

definition review_sdk_prompt :: sdk_prompt where
  "review_sdk_prompt =
     \<lparr>sp_name = ''review'', sp_description = Some ''Review code'',
      sp_arguments = Some [\<lparr>sa_name = ''code'', sa_description = Some ''The code'',
                             sa_required = Some True, sa_other = []\<rparr>,
                           \<lparr>sa_name = ''style'', sa_description = None,
                             sa_required = None, sa_other = []\<rparr>],
      sp_other = []\<rparr>"

definition plain_sdk_prompt :: sdk_prompt where
  "plain_sdk_prompt =
     \<lparr>sp_name = ''plain'', sp_description = None, sp_arguments = None, sp_other = []\<rparr>"

definition resource_endpoint :: endpoint where
  "resource_endpoint =
     up_endpoint\<lparr>ep_list_tools := Inl OtherException,
                 ep_list_resources := Inr [readme_sdk_resource]\<rparr>"

definition prompts_endpoint :: endpoint where
  "prompts_endpoint = up_endpoint\<lparr>ep_list_prompts := Inr [greet_sdk_prompt, review_sdk_prompt]\<rparr>"

definition plain_prompt_endpoint :: endpoint where
  "plain_prompt_endpoint =
     up_endpoint\<lparr>ep_list_prompts := Inr [greet_sdk_prompt, review_sdk_prompt, plain_sdk_prompt]\<rparr>"

definition resource_world :: world where
  "resource_world server_type config = resource_endpoint"

definition prompts_world :: world where
  "prompts_world server_type config = prompts_endpoint"

definition plain_prompt_world :: world where
  "plain_prompt_world server_type config = plain_prompt_endpoint"

definition http_config :: json where
  "http_config = JObj [(''url'', JStr ''http://localhost:9000/mcp''), (''headers'', JObj [])]"

text \<open>A server whose session exit is interrupted by the cancellation of the closing task.\<close>

definition cancelled_exit_world :: world where
  "cancelled_exit_world server_type config = up_endpoint\<lparr>ep_session_exit := Some CancelledError\<rparr>"

section \<open>The store: facts shared by several properties\<close>

lemma if_truthy_idem: "if_truthy (if_truthy v) = if_truthy v"
  by (simp add: if_truthy_def split: option.splits)

lemma tool_roundtrip:
  "tool_of_row (row_of_tool i t) = t\<lparr>tool_inputSchema := if_truthy (tool_inputSchema t)\<rparr>"
  by (simp add: tool_of_row_def row_of_tool_def if_truthy_idem)

lemma resource_roundtrip: "resource_of_row (row_of_resource i r) = r"
  by (simp add: resource_of_row_def row_of_resource_def)

lemma prompt_roundtrip:
  "prompt_of_row (row_of_prompt i p) = p\<lparr>prompt_arguments := if_truthy (prompt_arguments p)\<rparr>"
  by (simp add: prompt_of_row_def row_of_prompt_def if_truthy_idem)

lemma find_append_absent:
  "\<not> list_ex P xs \<Longrightarrow> find P (xs @ ys) = find P ys"
  by (induction xs) auto

lemma content_release: "content (release_db db c t) = t"
  by (simp add: release_db_def split: option.splits)

lemma get_mcp_server_None:
  "(get_mcp_server db i = None) = (\<forall>r \<in> set (mcp_servers (content db)). sr_id r \<noteq> i)"
proof -
  have "(get_mcp_server db i = None)
          = (find (\<lambda>r. sr_id r = i) (mcp_servers (content db)) = None)"
    by (simp add: get_mcp_server_def split: option.splits)
  then show ?thesis by (auto simp: find_None_iff)
qed

text \<open>No method turns the foreign-key pragma on.\<close>

lemma init_foreign_keys_off: "\<not> foreign_keys (get_connection_db (AgentDatabase_init path t))"
  by (simp add: AgentDatabase_init_def get_connection_db_def sqlite3_connect_def)

lemma delete_keeps_pragma:
  "foreign_keys (get_connection_db (snd (delete_mcp_server db i))) = foreign_keys (get_connection_db db)"
  by (simp add: delete_mcp_server_def sql_delete_server_def get_connection_db_def release_db_def
        sqlite3_connect_def Let_def split: option.splits prod.splits)

lemma update_keeps_pragma:
  "foreign_keys (get_connection_db (snd (update_mcp_server_status db i st lv now)))
     = foreign_keys (get_connection_db db)"
  by (simp add: update_mcp_server_status_def sql_update_status_def get_connection_db_def
        release_db_def sqlite3_connect_def Let_def split: option.splits prod.splits)

lemma insert_keeps_pragma:
  "insert_mcp_server db i ty d cfg caps now = Inr (r, db') \<Longrightarrow>
     foreign_keys (get_connection_db db') = foreign_keys (get_connection_db db)"
  by (auto simp: insert_mcp_server_def get_connection_db_def release_db_def
        sqlite3_connect_def Let_def split: option.splits if_splits)

text \<open>
  With the pragma off the DELETE leaves the capability tables as they are; with it on,
  the rows of the deleted server would go.
\<close>

lemma delete_without_pragma:
  "\<not> foreign_keys (get_connection_db db) \<Longrightarrow>
     mcp_tools (content (snd (delete_mcp_server db i))) = mcp_tools (content db) \<and>
     mcp_resources (content (snd (delete_mcp_server db i))) = mcp_resources (content db) \<and>
     mcp_prompts (content (snd (delete_mcp_server db i))) = mcp_prompts (content db)"
  by (simp add: delete_mcp_server_def sql_delete_server_def content_release Let_def
        split: prod.splits)

lemma delete_with_pragma:
  "foreign_keys (get_connection_db db) \<Longrightarrow> get_mcp_server db i \<noteq> None \<Longrightarrow>
     capability_rows (content (snd (delete_mcp_server db i))) i = 0"
  by (auto simp: delete_mcp_server_def sql_delete_server_def content_release Let_def
        capability_rows_def get_mcp_server_None filter_empty_conv split: prod.splits)

lemma delete_removes_server: "get_mcp_server (snd (delete_mcp_server db i)) i = None"
  by (auto simp: delete_mcp_server_def sql_delete_server_def content_release Let_def
        get_mcp_server_None split: prod.splits)

lemma delete_reports_existing:
  "get_mcp_server db i \<noteq> None \<Longrightarrow> fst (delete_mcp_server db i)"
  by (auto simp: delete_mcp_server_def sql_delete_server_def Let_def get_mcp_server_None
        filter_empty_conv split: prod.splits)

text \<open>
  On a store that opens a connection per call, the returned flag says whether a server
  row was deleted.
\<close>

lemma delete_per_call_connection:
  "persistent db = None \<Longrightarrow>
     fst (delete_mcp_server db i) = (\<exists>r \<in> set (mcp_servers (content db)). sr_id r = i)"
  by (auto simp: delete_mcp_server_def get_connection_db_def sqlite3_connect_def
        sql_delete_server_def Let_def filter_empty_conv split: prod.splits)

section \<open>Deleting a server\<close>

text \<open>
  C10, at the failing input. The claim: \<^verbatim>\<open>delete_mcp_server\<close> returns true exactly
  when the call deleted a server row, also on a store opened with \<^verbatim>\<open>:memory:\<close>.
  The code returns \<^verbatim>\<open>conn.total_changes > 0\<close>, and the persistent connection of an
  in-memory store still counts the rows written when \<^verbatim>\<open>s1\<close> was registered: deleting
  an id that has no row deletes nothing and returns true.
\<close>

theorem delete_unknown_id_on_memory_store:
  "get_mcp_server memory_db ''no-such-id'' = None \<and>
   fst (delete_mcp_server memory_db ''no-such-id'') \<and>
   content (snd (delete_mcp_server memory_db ''no-such-id'')) = content memory_db"
  by code_simp

text \<open>
  C1 as stated fails on the example application: after the delete route has returned
  for \<^verbatim>\<open>s1\<close>, it is not the case that no capability row references \<^verbatim>\<open>s1\<close> and
  the pool holds no session for it.
\<close>

theorem cascade_delete_counterexample:
  "fst (delete_mcp_server_route example_app ''s1'') = Inr () \<and>
   \<not> (capability_rows (content (app_db (snd (delete_mcp_server_route example_app ''s1'')))) ''s1'' = 0
      \<and> connections (app_manager (snd (delete_mcp_server_route example_app ''s1''))) ''s1'' = None)"
  by code_simp

text \<open>
  What the route left behind in that example: the row of the tool \<^verbatim>\<open>echo\<close>, and the
  pooled session with no exit awaited on it.
\<close>

lemma cascade_delete_example_rows:
  "capability_rows (content (app_db (snd (delete_mcp_server_route example_app ''s1'')))) ''s1'' = 1"
  by code_simp

lemma cascade_delete_example_session:
  "map_option c_session
     (connections (app_manager (snd (delete_mcp_server_route example_app ''s1''))) ''s1'') = Some 1
   \<and> trace (app_manager (snd (delete_mcp_server_route example_app ''s1'')))
       = [ClientEnter 0, SessionEnter 1, SessionInitialize 1]"
  by code_simp

text \<open>
  C1, amended. For every registered server id, after the delete route returns, the
  call has succeeded, no server row with that id remains (\<^verbatim>\<open>get_mcp_server\<close> finds
  nothing), and the connection manager is exactly as it was: the route does not
  touch the pool, so a pooled session for that id stays open.
\<close>

theorem delete_route_removes_server_only:
  assumes "get_mcp_server (app_db a) i \<noteq> None"
  shows "fst (delete_mcp_server_route a i) = Inr () \<and>
         get_mcp_server (app_db (snd (delete_mcp_server_route a i))) i = None \<and>
         app_manager (snd (delete_mcp_server_route a i)) = app_manager a"
  using delete_reports_existing [OF assms] delete_removes_server [of "app_db a" i]
  by (simp add: delete_mcp_server_route_def Let_def case_prod_beta)

theorem delete_route_removes_server_only_witness:
  "get_mcp_server (app_db example_app) ''s1'' \<noteq> None \<and>
   fst (delete_mcp_server_route example_app ''s1'') = Inr () \<and>
   get_mcp_server (app_db (snd (delete_mcp_server_route example_app ''s1''))) ''s1'' = None \<and>
   app_manager (snd (delete_mcp_server_route example_app ''s1'')) = app_manager example_app"
proof -
  have h: "get_mcp_server (app_db example_app) ''s1'' \<noteq> None"
    by code_simp
  show ?thesis
    using h delete_route_removes_server_only [OF h] by simp
qed

section \<open>Registration read back\<close>

text \<open>
  C9 as stated fails: registering the capabilities that discovery reports for the
  example server, whose prompt has the empty argument list, and reading the server
  back gives a different triple (the prompt's \<^verbatim>\<open>arguments\<close> come back as null).
\<close>

theorem insert_read_back_counterexample:
  "insert_mcp_server file_db ''s2'' ''stdio'' None echo_config greet_caps ''2024-01-02T00:00:00''
     = Inr (get_mcp_server greet_db ''s2'', greet_db) \<and>
   discover_capabilities up_world ''stdio'' echo_config = Inr greet_caps \<and>
   map_option d_capabilities (get_mcp_server greet_db ''s2'') \<noteq> Some greet_caps"
  by code_simp

lemma read_back_example_triple:
  "map_option d_capabilities (get_mcp_server greet_db ''s2'')
     = Some (greet_caps\<lparr>prompts := [\<lparr>prompt_name = ''greet'', prompt_description = None,
                                       prompt_arguments = None\<rparr>]\<rparr>)"
  by code_simp

text \<open>
  C9, amended. For an id that no server row and no capability row carries, the insert
  succeeds and the record read back afterwards holds the inserted tools, resources
  and prompts in the same order with the same names, descriptions, URIs and MIME
  types; an \<^verbatim>\<open>inputSchema\<close> or \<^verbatim>\<open>arguments\<close> value that is falsy in Python
  (\<^verbatim>\<open>{}\<close>, \<^verbatim>\<open>[]\<close>, null) is read back as null, every other one unchanged. In
  particular the triple read back equals the inserted one when no such value is an
  empty document.
\<close>

theorem insert_read_back:
  assumes "get_mcp_server db i = None" and "capability_rows (content db) i = 0"
  shows "\<exists>d db'. insert_mcp_server db i ty desc cfg caps now = Inr (Some d, db') \<and>
           get_mcp_server db' i = Some d \<and>
           tools (d_capabilities d)
             = map (\<lambda>t. t\<lparr>tool_inputSchema := if_truthy (tool_inputSchema t)\<rparr>) (tools caps) \<and>
           resources (d_capabilities d) = resources caps \<and>
           prompts (d_capabilities d)
             = map (\<lambda>p. p\<lparr>prompt_arguments := if_truthy (prompt_arguments p)\<rparr>) (prompts caps) \<and>
           ((\<forall>t \<in> set (tools caps). if_truthy (tool_inputSchema t) = tool_inputSchema t) \<and>
            (\<forall>p \<in> set (prompts caps). if_truthy (prompt_arguments p) = prompt_arguments p)
            \<longrightarrow> d_capabilities d = caps)"
proof -
  from assms(1) have absent: "\<not> list_ex (\<lambda>r. sr_id r = i) (mcp_servers (content db))"
    by (simp add: get_mcp_server_None list_ex_iff)
  from assms(2) have
    nt: "filter (\<lambda>r. tr_server_id r = i) (mcp_tools (content db)) = []" and
    nr: "filter (\<lambda>r. rr_server_id r = i) (mcp_resources (content db)) = []" and
    np: "filter (\<lambda>r. pr_server_id r = i) (mcp_prompts (content db)) = []"
    by (simp_all add: capability_rows_def)
  have ft: "filter (\<lambda>r. tr_server_id r = i) (map (row_of_tool i) xs) = map (row_of_tool i) xs" for xs
    by (induction xs) (simp_all add: row_of_tool_def)
  have fr: "filter (\<lambda>r. rr_server_id r = i) (map (row_of_resource i) xs) = map (row_of_resource i) xs" for xs
    by (induction xs) (simp_all add: row_of_resource_def)
  have fp: "filter (\<lambda>r. pr_server_id r = i) (map (row_of_prompt i) xs) = map (row_of_prompt i) xs" for xs
    by (induction xs) (simp_all add: row_of_prompt_def)
  have keep_t: "map (\<lambda>t. t\<lparr>tool_inputSchema := if_truthy (tool_inputSchema t)\<rparr>) xs = xs"
    if "\<forall>t \<in> set xs. if_truthy (tool_inputSchema t) = tool_inputSchema t" for xs :: "tool_cap list"
    using that by (induction xs) simp_all
  have keep_p: "map (\<lambda>p. p\<lparr>prompt_arguments := if_truthy (prompt_arguments p)\<rparr>) xs = xs"
    if "\<forall>p \<in> set xs. if_truthy (prompt_arguments p) = prompt_arguments p" for xs :: "prompt_cap list"
    using that by (induction xs) simp_all
  show ?thesis
    using absent
    by (simp add: insert_mcp_server_def Let_def get_mcp_server_def content_release
          find_append_absent nt nr np ft fr fp tool_roundtrip resource_roundtrip
          prompt_roundtrip comp_def keep_t keep_p)
qed

theorem insert_read_back_witness:
  "get_mcp_server file_db ''s2'' = None \<and> capability_rows (content file_db) ''s2'' = 0 \<and>
   (\<exists>d db'. insert_mcp_server file_db ''s2'' ''stdio'' None echo_config echo_caps ''t'' = Inr (Some d, db') \<and>
      get_mcp_server db' ''s2'' = Some d \<and> d_capabilities d = echo_caps)"
proof -
  have h1: "get_mcp_server file_db ''s2'' = None" by code_simp
  have h2: "capability_rows (content file_db) ''s2'' = 0" by code_simp
  have h3: "\<forall>t \<in> set (tools echo_caps). if_truthy (tool_inputSchema t) = tool_inputSchema t"
    by (simp add: echo_caps_def echo_tool_def if_truthy_def)
  have h4: "\<forall>p \<in> set (prompts echo_caps). if_truthy (prompt_arguments p) = prompt_arguments p"
    by (simp add: echo_caps_def)
  from insert_read_back [OF h1 h2, of "''stdio''" None echo_config echo_caps "''t''"] h3 h4
  show ?thesis using h1 h2 by blast
qed

section \<open>Verification\<close>

lemma find_map_update:
  "(\<And>r. sr_id (f r) = sr_id r) \<Longrightarrow>
   find (\<lambda>r. sr_id r = i) (map (\<lambda>r. if sr_id r = i then f r else r) xs)
     = map_option f (find (\<lambda>r. sr_id r = i) xs)"
  by (induction xs) auto

lemma get_after_update_status:
  "get_mcp_server (snd (update_mcp_server_status db i st lv now)) i
     = map_option (\<lambda>d. d\<lparr>d_status := st,
                            d_last_verified := Some (case lv of None \<Rightarrow> now | Some v \<Rightarrow> v)\<rparr>)
         (get_mcp_server db i)"
  by (simp add: update_mcp_server_status_def sql_update_status_def Let_def content_release
        get_mcp_server_def find_map_update split: option.splits)

text \<open>
  C2 as stated fails: the example server is stored with the tool \<^verbatim>\<open>echo\<close> only;
  verification rediscovers the tool and a prompt, reports both in its response, and
  leaves the stored capabilities as they were.
\<close>

theorem verify_replaces_capabilities_counterexample:
  "fst (verify_mcp_server up_world example_app ''s1'' ''2024-02-02T00:00:00'')
     = Inr \<lparr>v_server_id = ''s1'', v_status = ''active'',
            v_message = ''Server is reachable and responding'', v_capabilities = greet_caps\<rparr> \<and>
   map_option d_capabilities
     (get_mcp_server (app_db (snd (verify_mcp_server up_world example_app ''s1''
                                     ''2024-02-02T00:00:00''))) ''s1'') = Some echo_caps \<and>
   echo_caps \<noteq> greet_caps"
  by code_simp

text \<open>
  C2, amended. For every registered server, a successful verify sets the stored status
  to \<^verbatim>\<open>active\<close> and \<^verbatim>\<open>last_verified\<close> to the time of the call and changes nothing
  else of the record: the persisted capability triple stays the one stored at
  registration. The rediscovered triple is returned in the response only, and the
  connection manager is untouched.
\<close>

theorem verify_updates_status_and_timestamp:
  assumes "get_mcp_server (app_db a) i = Some server"
      and "discover_capabilities w (d_type server) (d_config server) = Inr caps"
  shows "fst (verify_mcp_server w a i now)
           = Inr \<lparr>v_server_id = i, v_status = ''active'',
                  v_message = ''Server is reachable and responding'', v_capabilities = caps\<rparr> \<and>
         get_mcp_server (app_db (snd (verify_mcp_server w a i now))) i
           = Some (server\<lparr>d_status := ''active'', d_last_verified := Some now\<rparr>) \<and>
         app_manager (snd (verify_mcp_server w a i now)) = app_manager a"
  using assms by (simp add: verify_mcp_server_def get_after_update_status)

theorem verify_updates_status_and_timestamp_witness:
  "get_mcp_server (app_db example_app) ''s1''
     = Some \<lparr>d_id = ''s1'', d_type = ''stdio'', d_description = None, d_config = echo_config,
             d_created_at = ''2024-01-01T00:00:00'',
             d_last_verified = Some ''2024-01-01T00:00:00'', d_status = ''active'',
             d_capabilities = echo_caps\<rparr> \<and>
   discover_capabilities up_world ''stdio'' echo_config = Inr greet_caps \<and>
   get_mcp_server (app_db (snd (verify_mcp_server up_world example_app ''s1'' ''2024-02-02T00:00:00''))) ''s1''
     = Some \<lparr>d_id = ''s1'', d_type = ''stdio'', d_description = None, d_config = echo_config,
             d_created_at = ''2024-01-01T00:00:00'',
             d_last_verified = Some ''2024-02-02T00:00:00'', d_status = ''active'',
             d_capabilities = echo_caps\<rparr>"
proof -
  have h1: "get_mcp_server (app_db example_app) ''s1''
     = Some \<lparr>d_id = ''s1'', d_type = ''stdio'', d_description = None, d_config = echo_config,
             d_created_at = ''2024-01-01T00:00:00'',
             d_last_verified = Some ''2024-01-01T00:00:00'', d_status = ''active'',
             d_capabilities = echo_caps\<rparr>"
    by code_simp
  have h2: "discover_capabilities up_world ''stdio'' echo_config = Inr greet_caps"
    by code_simp
  show ?thesis
    using h1 h2 verify_updates_status_and_timestamp [OF h1, of up_world greet_caps "''2024-02-02T00:00:00''"]
    by simp
qed

section \<open>Capability search\<close>

text \<open>
  C7, at the failing input. The claim: a tool search returns only servers that have a
  tool whose name or description contains the query. For the query \<^verbatim>\<open>_\<close> the SQL
  side matches the pattern \<^verbatim>\<open>%_%\<close>, in which the underscore stands for any
  character, so the example server is selected; the Python side then looks for a
  literal underscore, finds none in the tool \<^verbatim>\<open>echo\<close>, and the server is returned
  with no matched tool at all.
\<close>

theorem search_wildcard_query_returns_unmatched_server:
  "search_mcp_capabilities file_db (Some ''_'') (Some ''tool'') None 100
     = Inr [\<lparr>m_server_id = ''s1'', m_server_type = ''stdio'', m_server_description = None,
             m_server_config = echo_config, m_matched_tools = [], m_matched_resources = [],
             m_matched_prompts = []\<rparr>] \<and>
   map_option d_capabilities (get_mcp_server file_db ''s1'') = Some echo_caps \<and>
   tools echo_caps = [echo_tool] \<and>
   \<not> tool_matches ''_'' echo_tool"
  by code_simp

text \<open>The parts of C7 that hold for every query.\<close>

lemma foldl_add_tool_row:
  "foldl (add_tool_row db q) acc rows
     = acc @ concat (map (\<lambda>row. add_tool_row db q [] row) rows)"
proof (induction rows arbitrary: acc)
  case Nil
  then show ?case by simp
next
  case (Cons row rows)
  have "add_tool_row db q acc row = acc @ add_tool_row db q [] row"
    by (simp add: add_tool_row_def Let_def split: option.splits)
  with Cons show ?case by simp
qed

lemma get_mcp_server_id: "get_mcp_server db i = Some d \<Longrightarrow> d_id d = i"
  by (auto simp: get_mcp_server_def split: option.splits dest: find_Some_iff [THEN iffD1])

lemma tool_rows_entry:
  assumes "e \<in> set (add_tool_row db q [] row)"
  shows "m_server_id e = row \<and> m_matched_resources e = [] \<and> m_matched_prompts e = [] \<and>
         (\<exists>d. get_mcp_server db row = Some d \<and>
              m_matched_tools e = (if str_truthy q
                                   then filter (tool_matches (the q)) (tools (d_capabilities d))
                                   else tools (d_capabilities d)))"
proof (cases "get_mcp_server db row")
  case None
  with assms show ?thesis by (simp add: add_tool_row_def)
next
  case (Some d)
  with assms get_mcp_server_id [OF Some] show ?thesis
    by (simp add: add_tool_row_def Let_def new_match_def)
qed

lemma tool_rows_ids:
  "map m_server_id (concat (map (\<lambda>row. add_tool_row db q [] row) rows))
     = filter (\<lambda>row. get_mcp_server db row \<noteq> None) rows"
  by (induction rows)
     (auto simp: add_tool_row_def Let_def new_match_def get_mcp_server_id split: option.splits)

lemma tool_query_distinct: "distinct (tool_query t ty q limit)"
  by (simp add: tool_query_def sql_limit_def)

lemma tool_query_length: "0 \<le> limit \<Longrightarrow> length (tool_query t ty q limit) \<le> nat limit"
  by (simp add: tool_query_def sql_limit_def)

lemma tool_query_sound:
  assumes "i \<in> set (tool_query t ty q limit)"
  shows "\<exists>s \<in> set (mcp_servers t). \<exists>r \<in> set (mcp_tools t).
           sr_id s = i \<and> tr_server_id r = i \<and> sr_status s = ''active'' \<and>
           (str_truthy q \<longrightarrow> like_match (like_pattern (the q)) (tr_name r) \<or>
                             sql_like (like_pattern (the q)) (tr_description r))"
proof -
  from assms have
    "i \<in> set (concat (map (\<lambda>s. map (\<lambda>r. sr_id s)
        (filter (\<lambda>r. sr_id s = tr_server_id r \<and> server_filter ty s \<and>
                     (str_truthy q \<longrightarrow>
                        like_match (like_pattern (the q)) (tr_name r) \<or>
                        sql_like (like_pattern (the q)) (tr_description r)))
                (mcp_tools t))) (mcp_servers t)))"
    by (auto simp: tool_query_def sql_limit_def dest!: in_set_takeD split: if_splits)
  then obtain s r where "s \<in> set (mcp_servers t)" "r \<in> set (mcp_tools t)" "sr_id s = i"
    "sr_id s = tr_server_id r" "server_filter ty s"
    "str_truthy q \<longrightarrow> like_match (like_pattern (the q)) (tr_name r) \<or>
                        sql_like (like_pattern (the q)) (tr_description r)"
    by auto
  then show ?thesis
    unfolding server_filter_def by (intro bexI [of _ s] bexI [of _ r]) auto
qed

lemma search_tools_shape:
  "search_mcp_capabilities db q (Some ''tool'') ty limit
     = (if - (2 ^ 63) \<le> limit \<and> limit < 2 ^ 63
        then Inr (py_prefix limit (concat (map (\<lambda>row. add_tool_row db q [] row)
                                               (tool_query (content db) ty q limit))))
        else Inl OverflowError)"
  by (simp add: search_mcp_capabilities_def kind_selected_def str_truthy_def for_rows_def
        execute_fetchall_def foldl_add_tool_row Let_def)

lemma search_tools_rows:
  assumes "search_mcp_capabilities db q (Some ''tool'') ty limit = Inr res" and "e \<in> set res"
  shows "\<exists>row \<in> set (tool_query (content db) ty q limit). e \<in> set (add_tool_row db q [] row)"
  using assms
  by (auto simp: search_tools_shape py_prefix_def dest!: in_set_takeD split: if_splits)

lemma search_tools_entries:
  assumes "search_mcp_capabilities db q (Some ''tool'') ty limit = Inr res" and "e \<in> set res"
  shows "m_matched_resources e = [] \<and> m_matched_prompts e = [] \<and>
         (\<exists>s \<in> set (mcp_servers (content db)). sr_id s = m_server_id e \<and> sr_status s = ''active'')"
proof -
  from search_tools_rows [OF assms] obtain row where
    row: "row \<in> set (tool_query (content db) ty q limit)" and
    e: "e \<in> set (add_tool_row db q [] row)"
    by auto
  from tool_rows_entry [OF e] tool_query_sound [OF row] show ?thesis by auto
qed

lemma search_tools_distinct:
  assumes "search_mcp_capabilities db q (Some ''tool'') ty limit = Inr res"
  shows "distinct (map m_server_id res)"
proof -
  have "distinct (map m_server_id (concat (map (\<lambda>row. add_tool_row db q [] row)
                                              (tool_query (content db) ty q limit))))"
    by (simp add: tool_rows_ids tool_query_distinct)
  with assms show ?thesis
    by (auto simp: search_tools_shape py_prefix_def take_map [symmetric] distinct_take
          split: if_splits)
qed

lemma search_tools_length:
  "search_mcp_capabilities db q (Some ''tool'') ty limit = Inr res \<Longrightarrow> 0 \<le> limit \<Longrightarrow>
     length res \<le> nat limit"
  by (auto simp: search_tools_shape py_prefix_def split: if_splits)

text \<open>
  The search returns a list for every limit that fits in 64 bits, in particular for
  the limits 1 to 1000 that the route lets through; a larger one makes the first
  statement raise.
\<close>

lemma search_returns:
  assumes "- (2 ^ 63) \<le> limit" and "limit < 2 ^ 63"
  shows "\<exists>res. search_mcp_capabilities db q ct ty limit = Inr res"
  using assms
  by (simp add: search_mcp_capabilities_def for_rows_def execute_fetchall_def Let_def)

lemma search_limit_overflow:
  "2 ^ 63 \<le> limit \<Longrightarrow>
     search_mcp_capabilities db q (Some ''tool'') ty limit = Inl OverflowError"
  by (simp add: search_tools_shape)

text \<open>
  Where the two matchers agree: for an ASCII query with no \<^verbatim>\<open>%\<close> and no \<^verbatim>\<open>_\<close>, the
  SQL pattern \<^verbatim>\<open>%query%\<close> matches exactly the ASCII strings that contain the query
  up to ASCII case, which is what the Python filter tests on such strings.
\<close>

lemma like_match_percent_only: "like_match [CHR ''%''] s"
  by (induction s) simp_all

lemma like_match_percent:
  "like_match (CHR ''%'' # ps) s = (\<exists>k \<le> length s. like_match ps (drop k s))"
proof (induction s)
  case Nil
  then show ?case by simp
next
  case (Cons c cs)
  have "(\<exists>k \<le> length (c # cs). like_match ps (drop k (c # cs)))
          = (like_match ps (c # cs) \<or> (\<exists>k \<le> length cs. like_match ps (drop k cs)))"
  proof
    assume "\<exists>k \<le> length (c # cs). like_match ps (drop k (c # cs))"
    then obtain k where k: "k \<le> length (c # cs)" "like_match ps (drop k (c # cs))" by blast
    show "like_match ps (c # cs) \<or> (\<exists>k \<le> length cs. like_match ps (drop k cs))"
    proof (cases k)
      case 0
      with k show ?thesis by simp
    next
      case (Suc j)
      with k have "j \<le> length cs" "like_match ps (drop j cs)" by simp_all
      then show ?thesis by blast
    qed
  next
    assume "like_match ps (c # cs) \<or> (\<exists>k \<le> length cs. like_match ps (drop k cs))"
    then show "\<exists>k \<le> length (c # cs). like_match ps (drop k (c # cs))"
    proof
      assume "like_match ps (c # cs)"
      then have "0 \<le> length (c # cs) \<and> like_match ps (drop 0 (c # cs))" by simp
      then show ?thesis by blast
    next
      assume "\<exists>k \<le> length cs. like_match ps (drop k cs)"
      then obtain k where "k \<le> length cs" "like_match ps (drop k cs)" by blast
      then have "Suc k \<le> length (c # cs) \<and> like_match ps (drop (Suc k) (c # cs))" by simp
      then show ?thesis by blast
    qed
  qed
  with Cons show ?case by simp
qed

lemma like_match_literal:
  "CHR ''%'' \<notin> set q \<Longrightarrow> CHR ''_'' \<notin> set q \<Longrightarrow>
   like_match (q @ ps) s
     = (length q \<le> length s \<and> py_lower (take (length q) s) = py_lower q \<and>
        like_match ps (drop (length q) s))"
proof (induction q arbitrary: s)
  case Nil
  then show ?case by (simp add: py_lower_def)
next
  case (Cons p q)
  show ?case
  proof (cases s)
    case Nil
    with Cons.prems show ?thesis by auto
  next
    case (Cons c cs)
    with Cons.prems Cons.IH [of cs] show ?thesis
      by (auto simp: py_lower_def)
  qed
qed

lemma py_in_drop: "py_in q s = (\<exists>k \<le> length s. take (length q) (drop k s) = q)"
proof (induction s)
  case Nil
  then show ?case by auto
next
  case (Cons c cs)
  have "(\<exists>k \<le> length (c # cs). take (length q) (drop k (c # cs)) = q)
          = (take (length q) (c # cs) = q \<or> (\<exists>k \<le> length cs. take (length q) (drop k cs) = q))"
  proof
    assume "\<exists>k \<le> length (c # cs). take (length q) (drop k (c # cs)) = q"
    then obtain k where k: "k \<le> length (c # cs)" "take (length q) (drop k (c # cs)) = q"
      by blast
    show "take (length q) (c # cs) = q \<or> (\<exists>k \<le> length cs. take (length q) (drop k cs) = q)"
    proof (cases k)
      case 0
      with k show ?thesis by simp
    next
      case (Suc j)
      with k have "j \<le> length cs" "take (length q) (drop j cs) = q" by simp_all
      then show ?thesis by blast
    qed
  next
    assume "take (length q) (c # cs) = q \<or> (\<exists>k \<le> length cs. take (length q) (drop k cs) = q)"
    then show "\<exists>k \<le> length (c # cs). take (length q) (drop k (c # cs)) = q"
    proof
      assume "take (length q) (c # cs) = q"
      then have "0 \<le> length (c # cs) \<and> take (length q) (drop 0 (c # cs)) = q" by simp
      then show ?thesis by blast
    next
      assume "\<exists>k \<le> length cs. take (length q) (drop k cs) = q"
      then obtain k where "k \<le> length cs" "take (length q) (drop k cs) = q" by blast
      then have "Suc k \<le> length (c # cs) \<and> take (length q) (drop (Suc k) (c # cs)) = q"
        by simp
      then show ?thesis by blast
    qed
  qed
  with Cons show ?case by simp
qed

lemma take_eq_length:
  assumes "take (length q) xs = q"
  shows "length q \<le> length xs"
proof -
  from assms have "length (take (length q) xs) = length q" by simp
  then show ?thesis by simp
qed

lemma like_pattern_is_substring:
  assumes "CHR ''%'' \<notin> set q" and "CHR ''_'' \<notin> set q"
  shows "like_match (like_pattern q) s = py_in (py_lower q) (py_lower s)"
proof -
  have "like_match (like_pattern q) s
          = (\<exists>k \<le> length s. length q \<le> length (drop k s) \<and>
                py_lower (take (length q) (drop k s)) = py_lower q)"
  proof -
    have "like_match (like_pattern q) s
            = (\<exists>k \<le> length s. like_match (q @ [CHR ''%'']) (drop k s))"
      by (simp add: like_pattern_def like_match_percent)
    then show ?thesis
      by (simp add: like_match_literal [OF assms] like_match_percent_only)
  qed
  also have "\<dots> = (\<exists>k \<le> length s. take (length q) (drop k (py_lower s)) = py_lower q)"
  proof -
    have "(length q \<le> length (drop k s) \<and> py_lower (take (length q) (drop k s)) = py_lower q)
            = (take (length q) (drop k (py_lower s)) = py_lower q)" for k
    proof
      assume "length q \<le> length (drop k s) \<and> py_lower (take (length q) (drop k s)) = py_lower q"
      then show "take (length q) (drop k (py_lower s)) = py_lower q"
        by (simp add: py_lower_def take_map drop_map)
    next
      assume a: "take (length q) (drop k (py_lower s)) = py_lower q"
      then have "take (length (py_lower q)) (drop k (py_lower s)) = py_lower q"
        by (simp add: py_lower_def)
      from take_eq_length [OF this] have "length q \<le> length (drop k s)"
        by (simp add: py_lower_def)
      with a show "length q \<le> length (drop k s) \<and>
                   py_lower (take (length q) (drop k s)) = py_lower q"
        by (simp add: py_lower_def take_map drop_map)
    qed
    then show ?thesis by simp
  qed
  also have "\<dots> = py_in (py_lower q) (py_lower s)"
    by (simp add: py_in_drop py_lower_def)
  finally show ?thesis .
qed

text \<open>
  So for a non-empty ASCII query without wildcard characters, over ASCII names and
  descriptions, C7 holds in full: every returned server is active and carries, in
  \<open>m_matched_tools\<close>, at least one tool, and only tools, whose name or description
  contains the query.
\<close>

lemma search_tools_literal_query:
  assumes q: "q \<noteq> []" "CHR ''%'' \<notin> set q" "CHR ''_'' \<notin> set q"
      and r: "search_mcp_capabilities db (Some q) (Some ''tool'') ty limit = Inr res"
      and e: "e \<in> set res"
  shows "m_matched_tools e \<noteq> [] \<and> (\<forall>t \<in> set (m_matched_tools e). tool_matches q t)"
proof -
  from search_tools_rows [OF r e] obtain row where
    row: "row \<in> set (tool_query (content db) ty (Some q) limit)" and
    er: "e \<in> set (add_tool_row db (Some q) [] row)"
    by auto
  from tool_rows_entry [OF er] q(1) obtain d where
    d: "get_mcp_server db row = Some d" and
    m: "m_matched_tools e = filter (tool_matches q) (tools (d_capabilities d))"
    by (auto simp: str_truthy_def)
  from tool_query_sound [OF row] q(1) obtain r where
    r: "r \<in> set (mcp_tools (content db))" "tr_server_id r = row" and
    l: "like_match (like_pattern q) (tr_name r) \<or> sql_like (like_pattern q) (tr_description r)"
    by (auto simp: str_truthy_def)
  from l have "tool_matches q (tool_of_row r)"
    by (auto simp: tool_matches_def tool_of_row_def sql_like_def or_empty_def
          like_pattern_is_substring [OF q(2,3)] split: option.splits)
  moreover from d r have "tool_of_row r \<in> set (tools (d_capabilities d))"
    by (auto simp: get_mcp_server_def split: option.splits)
  ultimately have "tool_of_row r \<in> set (m_matched_tools e)"
    by (simp add: m)
  then show ?thesis by (auto simp: m filter_empty_conv)
qed

section \<open>The connection pool\<close>

lemma open_connection_pool:
  "connections (snd (open_connection ep m i ty cfg now)) = connections m"
  by (simp add: open_connection_def Let_def split: option.splits)

lemma open_connection_contexts:
  "open_connection ep m i ty cfg now = (Inr conn, m') \<Longrightarrow>
     c_client_context conn = Some (allocated m) \<and>
     c_session_context conn = Some (allocated m + 1) \<and>
     c_session conn = allocated m + 1 \<and> c_is_healthy conn \<and>
     trace m' = trace m @ [ClientEnter (allocated m), SessionEnter (allocated m + 1),
                          SessionInitialize (allocated m + 1)]"
  by (auto simp: open_connection_def Let_def MCPConnection_init_def split: option.splits)

text \<open>The open fails exactly when one of its three awaits raises, with that exception.\<close>

lemma open_connection_result:
  "fst (open_connection ep m i ty cfg now)
     = (case ep_open ep of
          Some e \<Rightarrow> Inl e
        | None \<Rightarrow>
            (case ep_session_enter ep of
               Some e \<Rightarrow> Inl e
             | None \<Rightarrow>
                 (case ep_initialize ep of
                    Some e \<Rightarrow> Inl e
                  | None \<Rightarrow> Inr (MCPConnection_init i ty cfg (allocated m + 1) (allocated m)
                                   (allocated m + 1) now))))"
  by (simp add: open_connection_def Let_def split: option.splits)

lemma create_stdio_connection_pool:
  "connections (snd (create_stdio_connection w m i server now)) = connections m"
  by (simp add: create_stdio_connection_def Let_def open_connection_pool
        split: option.splits sum.splits)

lemma create_http_connection_pool:
  "connections (snd (create_http_connection w m i server now)) = connections m"
  by (simp add: create_http_connection_def Let_def open_connection_pool split: option.splits)

text \<open>
  \<^verbatim>\<open>_create_connection\<close> on its own: when it raises, the pool is the one it was called
  with.
\<close>

lemma create_connection_failure:
  assumes "create_connection w db m i now = (Inl e, m')"
  shows "connections m' = connections m \<and>
         (e = ValueError \<and> get_mcp_server db i = None \<or> e = ConnectionError \<or> e = CancelledError)"
proof (cases "get_mcp_server db i")
  case None
  with assms show ?thesis by (simp add: create_connection_def)
next
  case (Some server)
  let ?r = "if d_type server = ''stdio'' then create_stdio_connection w m i server now
            else if d_type server \<in> set [''http'', ''sse'']
                 then create_http_connection w m i server now
            else (Inl ValueError, m)"
  have pool: "connections (snd ?r) = connections m"
    by (simp add: create_stdio_connection_pool create_http_connection_pool)
  obtain r m1 where r: "?r = (r, m1)" by (cases ?r)
  with pool have m1: "connections m1 = connections m" by simp
  from assms Some r have "create_connection w db m i now
      = (case (r, m1) of
           (Inr conn, m') \<Rightarrow> (Inr conn, m'\<lparr>connections := (connections m')(i \<mapsto> conn)\<rparr>)
         | (Inl e, m') \<Rightarrow> (if e = CancelledError then Inl e else Inl ConnectionError, m'))"
    by (simp add: create_connection_def)
  with assms m1 show ?thesis
    by (cases r) (auto split: if_splits)
qed

lemma create_connection_success:
  assumes "create_connection w db m i now = (Inr conn, m')"
  shows "connections m' = (connections m)(i \<mapsto> conn) \<and>
         (\<exists>c s. c_client_context conn = Some c \<and> c_session_context conn = Some s \<and>
                c_session conn = s \<and>
                trace m' = trace m @ [ClientEnter c, SessionEnter s, SessionInitialize s])"
proof (cases "get_mcp_server db i")
  case None
  with assms show ?thesis by (simp add: create_connection_def)
next
  case (Some server)
  let ?r = "if d_type server = ''stdio'' then create_stdio_connection w m i server now
            else if d_type server \<in> set [''http'', ''sse'']
                 then create_http_connection w m i server now
            else (Inl ValueError, m)"
  obtain r m1 where r: "?r = (r, m1)" by (cases ?r)
  from assms Some r have eq: "(case (r, m1) of
           (Inr conn, m') \<Rightarrow> (Inr conn, m'\<lparr>connections := (connections m')(i \<mapsto> conn)\<rparr>)
         | (Inl e, m') \<Rightarrow> (if e = CancelledError then Inl e else Inl ConnectionError, m'))
       = (Inr conn, m')"
    by (simp add: create_connection_def)
  then have rc: "r = Inr conn" and m': "m' = m1\<lparr>connections := (connections m1)(i \<mapsto> conn)\<rparr>"
    by (cases r; auto split: if_splits)+
  from r rc obtain ep ty cfg where "open_connection ep m i ty cfg now = (Inr conn, m1)"
    by (auto simp: create_stdio_connection_def create_http_connection_def Let_def
          split: if_splits option.splits sum.splits)
  from open_connection_contexts [OF this] open_connection_pool [of ep m i ty cfg now] this
  show ?thesis by (simp add: m')
qed

text \<open>
  \<^verbatim>\<open>_create_connection\<close> for a registered server, split at its first await: what is
  decided before it (\<open>connect_target\<close>) and the open itself.
\<close>

lemma create_connection_target:
  "get_mcp_server db i = Some server \<Longrightarrow>
   create_connection w db m i now
     = (case connect_target server of
          Inl e \<Rightarrow> (Inl ConnectionError, m)
        | Inr (ty, cfg) \<Rightarrow>
            (case open_connection (w ty cfg) m i ty cfg now of
               (Inr conn, m') \<Rightarrow> (Inr conn, m'\<lparr>connections := (connections m')(i \<mapsto> conn)\<rparr>)
             | (Inl e, m') \<Rightarrow> (if e = CancelledError then Inl e else Inl ConnectionError, m')))"
  by (simp add: create_connection_def connect_target_def create_stdio_connection_def
        create_http_connection_def StdioServerParameters_def Let_def
        split: option.splits sum.splits)

lemma connect_target_error: "connect_target server = Inl e \<Longrightarrow> e \<noteq> CancelledError"
  by (auto simp: connect_target_def StdioServerParameters_def
        split: if_splits option.splits sum.splits)

lemma connect_target_value:
  "connect_target server = Inr (ty, cfg) \<Longrightarrow> ty = d_type server \<and> cfg = d_config server"
  by (auto simp: connect_target_def split: if_splits option.splits sum.splits)

lemma close_connection_pool:
  "connections (snd (close_connection w m i)) = (connections m)(i := None)"
  by (auto simp: close_connection_def Let_def split: option.splits prod.splits if_splits)

subsection \<open>Closing\<close>

text \<open>
  A close that runs from its first statement to its return with no other task in
  between. For a pooled connection that carries both context managers, as every
  connection built by the manager does (\<open>create_connection_success\<close>, which also shows
  that the client context was entered before the session context; \<open>both_contexts\<close>
  below), it awaits the session exit first and the client exit second, unless
  the closing task is cancelled during the session exit: then the client exit is not
  awaited at all. The entry is removed in every case, and a close of the same id made
  after the first has returned changes nothing and awaits nothing.
\<close>

lemma close_connection_sequential:
  assumes "connections m i = Some conn"
      and "c_client_context conn = Some c" and "c_session_context conn = Some s"
  shows "connections (snd (close_connection w m i)) i = None \<and>
         (trace (snd (close_connection w m i)) = trace m @ [SessionExit s, ClientExit c] \<or>
          fst (close_connection w m i) = Some CancelledError \<and>
          trace (snd (close_connection w m i)) = trace m @ [SessionExit s]) \<and>
         close_connection w (snd (close_connection w m i)) i
           = (None, snd (close_connection w m i))"
proof -
  have gone: "connections (snd (close_connection w m i)) i = None"
    by (simp add: close_connection_pool)
  then have again: "close_connection w (snd (close_connection w m i)) i
                      = (None, snd (close_connection w m i))"
    by (simp add: close_connection_def [of w "snd (close_connection w m i)"])
  have order: "trace (snd (close_connection w m i)) = trace m @ [SessionExit s, ClientExit c] \<or>
          fst (close_connection w m i) = Some CancelledError \<and>
          trace (snd (close_connection w m i)) = trace m @ [SessionExit s]"
    using assms
    by (auto simp: close_connection_def Let_def guarded_exit_def split: option.splits if_splits)
  from gone order again show ?thesis by blast
qed

lemma close_connection_sequential_example:
  "trace pooled_manager = [ClientEnter 0, SessionEnter 1, SessionInitialize 1] \<and>
   connections (snd (close_connection up_world pooled_manager ''s1'')) ''s1'' = None \<and>
   trace (snd (close_connection up_world pooled_manager ''s1''))
     = [ClientEnter 0, SessionEnter 1, SessionInitialize 1, SessionExit 1, ClientExit 0]"
  by code_simp

text \<open>
  The close of a task that is cancelled while it awaits the session exit (as the
  cleanup task is by \<^verbatim>\<open>stop\<close>): the \<^verbatim>\<open>finally\<close> clause removes the entry, the
  client context is never exited, and no later close can reach it.
\<close>

lemma cancelled_session_exit_example:
  "fst (close_connection cancelled_exit_world pooled_manager ''s1'') = Some CancelledError \<and>
   trace (snd (close_connection cancelled_exit_world pooled_manager ''s1''))
     = [ClientEnter 0, SessionEnter 1, SessionInitialize 1, SessionExit 1] \<and>
   connections (snd (close_connection cancelled_exit_world pooled_manager ''s1'')) ''s1'' = None"
  by code_simp

text \<open>
  C4, at the failing input. The claim: closing a session tears the session down
  strictly before the transport, and a second close of the same id does nothing
  (no double close). The pooled session of \<^verbatim>\<open>s1\<close> has been marked unhealthy by
  \<^verbatim>\<open>health_check\<close>, and two calls of \<^verbatim>\<open>get_connection('s1')\<close> overlap. Both find the
  entry and enter \<^verbatim>\<open>_close_connection\<close>: its guard is tested before the first
  \<^verbatim>\<open>await\<close>, the entry is removed after the last. With the turns alternating, each
  context is exited twice and the second \<^verbatim>\<open>del\<close> raises \<^verbatim>\<open>KeyError\<close>; with the
  first call two turns ahead, the session is exited once more after its transport has
  been exited.
\<close>

theorem overlapping_closes_exit_twice:
  "map_option c_is_healthy (connections stale_manager ''s1'') = Some False \<and>
   trace stale_manager = [ClientEnter 0, SessionEnter 1, SessionInitialize 1] \<and>
   trace (manager (run up_world file_db ''s1'' [(0, 1), (1, 2), (0, 3), (1, 4), (0, 5), (1, 6)]
                     (calls 2 stale_manager)))
     = [ClientEnter 0, SessionEnter 1, SessionInitialize 1,
        SessionExit 1, SessionExit 1, ClientExit 0, ClientExit 0] \<and>
   tasks (run up_world file_db ''s1'' [(0, 1), (1, 2), (0, 3), (1, 4), (0, 5), (1, 6)]
            (calls 2 stale_manager)) ! 1 = Raised KeyError \<and>
   trace (manager (run up_world file_db ''s1'' [(0, 1), (0, 2), (1, 3)] (calls 2 stale_manager)))
     = [ClientEnter 0, SessionEnter 1, SessionInitialize 1,
        SessionExit 1, ClientExit 0, SessionExit 1]"
  by code_simp

text \<open>
  The hypothesis of \<open>close_connection_sequential\<close> holds throughout the life of a
  pool: it holds of the empty pool and every operation of the manager keeps it.
\<close>

lemma both_contexts_empty: "connections m = Map.empty \<Longrightarrow> both_contexts m"
  by (simp add: both_contexts_def)

lemma both_contexts_close: "both_contexts m \<Longrightarrow> both_contexts (snd (close_connection w m i))"
  by (simp add: both_contexts_def close_connection_pool)

lemma both_contexts_health_check:
  "both_contexts m \<Longrightarrow> both_contexts (snd (health_check w m i))"
  by (auto simp: both_contexts_def health_check_def conn_health_check_def
        split: option.splits sum.splits if_splits)

lemma both_contexts_create:
  assumes "both_contexts m"
  shows "both_contexts (snd (create_connection w db m i now))"
proof (cases "create_connection w db m i now")
  case (Pair r m')
  show ?thesis
  proof (cases r)
    case (Inl e)
    with Pair create_connection_failure [of w db m i now e m'] assms show ?thesis
      by (simp add: both_contexts_def)
  next
    case (Inr conn)
    with Pair create_connection_success [of w db m i now conn m'] assms show ?thesis
      by (auto simp: both_contexts_def)
  qed
qed

lemma both_contexts_get_connection:
  assumes "both_contexts m"
  shows "both_contexts (snd (get_connection w db m i now))"
proof -
  have locked: "both_contexts (snd (
      case connections (m0\<lparr>locks := insert i (locks m0)\<rparr>) i of
        Some conn \<Rightarrow>
          (Inr (update_activity now conn),
           (m0\<lparr>locks := insert i (locks m0)\<rparr>)\<lparr>connections :=
              (connections (m0\<lparr>locks := insert i (locks m0)\<rparr>))(i \<mapsto> update_activity now conn)\<rparr>)
      | None \<Rightarrow> create_connection w db (m0\<lparr>locks := insert i (locks m0)\<rparr>) i now))"
    if "both_contexts m0" for m0
  proof (cases "connections m0 i")
    case None
    from that have "both_contexts (m0\<lparr>locks := insert i (locks m0)\<rparr>)"
      by (simp add: both_contexts_def)
    from both_contexts_create [OF this] None show ?thesis by simp
  next
    case (Some conn)
    with that show ?thesis by (auto simp: both_contexts_def update_activity_def)
  qed
  show ?thesis
  proof (cases "connections m i")
    case None
    with locked [OF assms] show ?thesis by (simp add: get_connection_def Let_def)
  next
    case (Some conn)
    show ?thesis
    proof (cases "c_is_healthy conn")
      case True
      with Some assms show ?thesis
        by (auto simp: get_connection_def Let_def both_contexts_def update_activity_def)
    next
      case False
      obtain x m0 where c: "close_connection w m i = (x, m0)" by (cases "close_connection w m i")
      with both_contexts_close [OF assms, of w i] have b: "both_contexts m0" by simp
      show ?thesis
      proof (cases x)
        case None
        with Some False c locked [OF b] show ?thesis by (simp add: get_connection_def Let_def)
      next
        case (Some e)
        with \<open>connections m i = Some conn\<close> False c b show ?thesis
          by (simp add: get_connection_def Let_def)
      qed
    qed
  qed
qed

subsection \<open>A failed open\<close>

text \<open>
  \<^verbatim>\<open>_create_connection\<close> for a registered server whose open fails: one of the three
  awaits raises \<open>e\<close>, the ones before it having returned. (When the configuration is
  refused before the first await the outcome is the same.)
\<close>

lemma create_connection_failed_open:
  assumes server: "get_mcp_server db i = Some server"
      and fails: "ep_open (w (d_type server) (d_config server)) = Some e \<or>
                  ep_open (w (d_type server) (d_config server)) = None \<and>
                  (ep_session_enter (w (d_type server) (d_config server)) = Some e \<or>
                   ep_session_enter (w (d_type server) (d_config server)) = None \<and>
                   ep_initialize (w (d_type server) (d_config server)) = Some e)"
      and exn: "e \<noteq> CancelledError"
  shows "fst (create_connection w db m i now) = Inl ConnectionError \<and>
         connections (snd (create_connection w db m i now)) = connections m"
proof -
  have err: "fst (create_connection w db m i now) = Inl ConnectionError"
  proof (cases "connect_target server")
    case (Inl x)
    then show ?thesis by (simp add: create_connection_target [OF server])
  next
    case (Inr tc)
    obtain ty cfg where tc: "tc = (ty, cfg)" by (cases tc)
    from connect_target_value [of server ty cfg] Inr tc
    have v: "ty = d_type server" "cfg = d_config server" by simp_all
    from fails exn have "fst (open_connection (w ty cfg) m i ty cfg now) = Inl e"
      by (auto simp: open_connection_result v)
    then obtain m1 where "open_connection (w ty cfg) m i ty cfg now = (Inl e, m1)"
      by (cases "open_connection (w ty cfg) m i ty cfg now") simp
    with Inr tc exn show ?thesis by (simp add: create_connection_target [OF server])
  qed
  then have "create_connection w db m i now
               = (Inl ConnectionError, snd (create_connection w db m i now))"
    by (simp add: prod_eq_iff)
  from create_connection_failure [OF this] err show ?thesis by simp
qed

text \<open>
  \<^verbatim>\<open>get_connection\<close> on a pool with no healthy entry for the id, once the close of
  an unhealthy one has returned: what is left is \<^verbatim>\<open>_create_connection\<close> under the lock.
\<close>

lemma get_connection_reopen:
  assumes "\<forall>conn. connections m i = Some conn \<longrightarrow> \<not> c_is_healthy conn"
      and c: "close_connection w m i = (None, m0)"
  shows "get_connection w db m i now
           = create_connection w db (m0\<lparr>locks := insert i (locks m0)\<rparr>) i now"
proof (cases "connections m i")
  case None
  with c have "m0 = m" by (simp add: close_connection_def)
  with None show ?thesis by (simp add: get_connection_def Let_def)
next
  case (Some conn)
  with assms(1) have u: "\<not> c_is_healthy conn" by simp
  from close_connection_pool [of w m i] c have "connections m0 i = None" by simp
  with Some u c show ?thesis by (simp add: get_connection_def Let_def)
qed

text \<open>
  C5. \<^verbatim>\<open>get_connection\<close> reaches the open when the pool holds no healthy entry for
  the id; an unhealthy one is closed and removed first (the explicit ``close and
  reconnect'' branch), and the pool at the moment the open starts is the one that
  close has left. If the open then fails for a registered server, with an exception
  other than the cancellation of the calling task, \<^verbatim>\<open>get_connection\<close> raises
  \<^verbatim>\<open>ConnectionError\<close> and the pool it leaves is the pool at the moment the open
  started: no entry has been inserted and none has been modified. For a pool with no
  entry for the id that is the pool before the call.
\<close>

theorem failed_open_leaves_pool:
  assumes server: "get_mcp_server db i = Some server"
      and no_healthy: "\<forall>conn. connections m i = Some conn \<longrightarrow> \<not> c_is_healthy conn"
      and closed: "fst (close_connection w m i) = None"
      and fails: "ep_open (w (d_type server) (d_config server)) = Some e \<or>
                  ep_open (w (d_type server) (d_config server)) = None \<and>
                  (ep_session_enter (w (d_type server) (d_config server)) = Some e \<or>
                   ep_session_enter (w (d_type server) (d_config server)) = None \<and>
                   ep_initialize (w (d_type server) (d_config server)) = Some e)"
      and exn: "e \<noteq> CancelledError"
  shows "fst (get_connection w db m i now) = Inl ConnectionError \<and>
         connections (snd (get_connection w db m i now))
           = connections (snd (close_connection w m i)) \<and>
         (connections m i = None \<longrightarrow>
            connections (snd (get_connection w db m i now)) = connections m)"
proof -
  obtain x m0 where c: "close_connection w m i = (x, m0)" by (cases "close_connection w m i")
  with closed have c: "close_connection w m i = (None, m0)" by simp
  note g = get_connection_reopen [OF no_healthy c, of db now]
  from create_connection_failed_open
         [where w = w and server = server and e = e and now = now and
            m = "m0\<lparr>locks := insert i (locks m0)\<rparr>", OF server fails exn]
  have r: "fst (get_connection w db m i now) = Inl ConnectionError"
          "connections (snd (get_connection w db m i now)) = connections m0"
    by (simp_all add: g)
  from close_connection_pool [of w m i] c have "connections m0 = (connections m)(i := None)"
    by simp
  then have "connections m0 = connections m" if "connections m i = None"
    using that by (auto simp: fun_eq_iff)
  with r c show ?thesis by simp
qed

theorem failed_open_leaves_pool_witness:
  "get_mcp_server file_db ''s1'' \<noteq> None \<and>
   ep_open (down_world ''stdio'' echo_config) = Some FileNotFoundError \<and>
   connections empty_manager ''s1'' = None \<and>
   fst (get_connection down_world file_db empty_manager ''s1'' 200) = Inl ConnectionError \<and>
   connections (snd (get_connection down_world file_db empty_manager ''s1'' 200))
     = connections empty_manager \<and>
   map_option c_is_healthy (connections stale_manager ''s1'') = Some False \<and>
   fst (close_connection down_world stale_manager ''s1'') = None \<and>
   fst (get_connection down_world file_db stale_manager ''s1'' 200) = Inl ConnectionError \<and>
   connections (snd (get_connection down_world file_db stale_manager ''s1'' 200))
     = connections (snd (close_connection down_world stale_manager ''s1''))"
proof -
  let ?server = "the (get_mcp_server file_db ''s1'')"
  have r: "get_mcp_server file_db ''s1'' \<noteq> None" by code_simp
  then have s: "get_mcp_server file_db ''s1'' = Some ?server" by simp
  have f: "ep_open (down_world (d_type ?server) (d_config ?server)) = Some FileNotFoundError \<or>
           ep_open (down_world (d_type ?server) (d_config ?server)) = None \<and>
           (ep_session_enter (down_world (d_type ?server) (d_config ?server))
              = Some FileNotFoundError \<or>
            ep_session_enter (down_world (d_type ?server) (d_config ?server)) = None \<and>
            ep_initialize (down_world (d_type ?server) (d_config ?server))
              = Some FileNotFoundError)"
    by (simp add: down_world_def down_endpoint_def)
  have o: "ep_open (down_world ''stdio'' echo_config) = Some FileNotFoundError"
    by (simp add: down_world_def down_endpoint_def)
  have x: "FileNotFoundError \<noteq> CancelledError" by simp
  have n: "connections empty_manager ''s1'' = None" by (simp add: empty_manager_def)
  then have h1: "\<forall>conn. connections empty_manager ''s1'' = Some conn \<longrightarrow> \<not> c_is_healthy conn"
    by simp
  from n have c1: "fst (close_connection down_world empty_manager ''s1'') = None"
    by (simp add: close_connection_def)
  have u: "map_option c_is_healthy (connections stale_manager ''s1'') = Some False"
    by code_simp
  then have h2: "\<forall>conn. connections stale_manager ''s1'' = Some conn \<longrightarrow> \<not> c_is_healthy conn"
    by auto
  have c2: "fst (close_connection down_world stale_manager ''s1'') = None" by code_simp
  from failed_open_leaves_pool
         [where w = down_world and server = ?server and e = FileNotFoundError and
            m = empty_manager and now = 200, OF s h1 c1 f x]
       failed_open_leaves_pool
         [where w = down_world and server = ?server and e = FileNotFoundError and
            m = stale_manager and now = 200, OF s h2 c2 f x]
       r o n u c2
  show ?thesis by blast
qed

text \<open>
  The converse: whenever \<^verbatim>\<open>get_connection\<close> raises, the pool it leaves is the pool
  before the call without the entry of that id, and for a registered server the
  exception is \<^verbatim>\<open>ConnectionError\<close>, cancellation apart.
\<close>

lemma failed_get_connection_map:
  assumes "get_connection w db m i now = (Inl e, m')"
  shows "connections m' = (connections m)(i := None) \<and>
         (connections m i = None \<longrightarrow> connections m' = connections m) \<and>
         (get_mcp_server db i \<noteq> None \<and> e \<noteq> CancelledError \<longrightarrow> e = ConnectionError)"
proof -
  have locked: "connections m1' = connections m0 \<and>
                (get_mcp_server db i \<noteq> None \<and> e \<noteq> CancelledError \<longrightarrow> e = ConnectionError)"
    if "connections m0 i = None"
       and "create_connection w db (m0\<lparr>locks := insert i (locks m0)\<rparr>) i now = (Inl e, m1')"
    for m0 m1'
    using create_connection_failure [OF that(2)] by auto
  show ?thesis
  proof (cases "connections m i")
    case None
    with assms have "create_connection w db (m\<lparr>locks := insert i (locks m)\<rparr>) i now = (Inl e, m')"
      by (simp add: get_connection_def Let_def)
    from locked [OF None this] None show ?thesis by auto
  next
    case (Some conn)
    show ?thesis
    proof (cases "c_is_healthy conn")
      case True
      with assms Some show ?thesis by (simp add: get_connection_def Let_def)
    next
      case False
      obtain x m0 where c: "close_connection w m i = (x, m0)" by (cases "close_connection w m i")
      with close_connection_pool [of w m i] have m0: "connections m0 = (connections m)(i := None)"
        by simp
      show ?thesis
      proof (cases x)
        case None
        with assms Some False c m0
        have "create_connection w db (m0\<lparr>locks := insert i (locks m0)\<rparr>) i now = (Inl e, m')"
          by (simp add: get_connection_def Let_def)
        from locked [OF _ this] m0 Some show ?thesis by simp
      next
        case (Some ex)
        with assms \<open>connections m i = Some conn\<close> False c have "m' = m0" "e = ex"
          by (simp_all add: get_connection_def Let_def)
        moreover from c Some have "ex = CancelledError"
          by (auto simp: close_connection_def Let_def guarded_exit_def
                split: option.splits prod.splits if_splits)
        ultimately show ?thesis using m0 \<open>connections m i = Some conn\<close> by simp
      qed
    qed
  qed
qed

text \<open>
  The reconnect of the stale entry while the server is down: the entry that is gone
  afterwards was removed by the close that precedes the open.
\<close>

lemma stale_entry_reconnect_example:
  "map_option c_is_healthy (connections stale_manager ''s1'') = Some False \<and>
   fst (get_connection down_world file_db stale_manager ''s1'' 200) = Inl ConnectionError \<and>
   connections (snd (close_connection down_world stale_manager ''s1'')) ''s1'' = None \<and>
   connections (snd (get_connection down_world file_db stale_manager ''s1'' 200)) ''s1'' = None"
  by code_simp

section \<open>Discovery\<close>

lemma comprehension_total: "comprehension (\<lambda>x. Inr (f x)) xs = Inr (map f xs)"
  by (induction xs) simp_all

text \<open>The blocks for tools and resources: their comprehensions do not raise.\<close>

lemma best_effort_total:
  "r \<noteq> Inl CancelledError \<Longrightarrow>
     best_effort r (\<lambda>x. Inr (f x)) = Inr (case r of Inl e \<Rightarrow> [] | Inr xs \<Rightarrow> map f xs)"
  by (auto simp: best_effort_def comprehension_total split: sum.splits)

text \<open>
  The block for prompts: one prompt whose \<^verbatim>\<open>arguments\<close> is \<^verbatim>\<open>None\<close> loses the whole
  list.
\<close>

lemma comprehension_prompts:
  "comprehension prompt_of_sdk ps
     = (if list_all (\<lambda>p. sp_arguments p \<noteq> None) ps
        then Inr (map (\<lambda>p. \<lparr>prompt_name = sp_name p, prompt_description = sp_description p,
                             prompt_arguments
                               = Some (JArr (map arg_of_sdk (the (sp_arguments p))))\<rparr>) ps)
        else Inl TypeError)"
  by (induction ps) (auto simp: prompt_of_sdk_def split: option.splits)

lemma best_effort_prompts:
  "r \<noteq> Inl CancelledError \<Longrightarrow>
     best_effort r prompt_of_sdk
       = Inr (case r of
                Inl e \<Rightarrow> []
              | Inr ps \<Rightarrow>
                  if list_all (\<lambda>p. sp_arguments p \<noteq> None) ps
                  then map (\<lambda>p. \<lparr>prompt_name = sp_name p, prompt_description = sp_description p,
                                  prompt_arguments
                                    = Some (JArr (map arg_of_sdk (the (sp_arguments p))))\<rparr>) ps
                  else [])"
  by (auto simp: best_effort_def comprehension_prompts split: sum.splits)

text \<open>The result is built only from an empty list of resources.\<close>

lemma MCPServerCapabilities_resources:
  "MCPServerCapabilities ts (map resource_of_sdk xs) ps
     = (if xs = [] then Inr \<lparr>tools = ts, resources = [], prompts = ps\<rparr>
        else Inl ValidationError)"
  by (cases xs)
     (simp_all add: MCPServerCapabilities_def MCPResourceCapability_def resource_of_sdk_def)

text \<open>
  What discovery returns once the transport is open and the session initialized, the
  two contexts are left without an error and the calling task is not cancelled. A list
  call that raises contributes the empty list. The tools that were listed are returned.
  The prompts that were listed are returned if each of them carries a list of
  arguments, and none of them otherwise. As soon as one resource was listed the whole
  call fails.
\<close>

lemma discover_session_result:
  assumes "ep_open ep = None" and "ep_session_enter ep = None" and "ep_initialize ep = None"
      and "ep_session_exit ep = None" and "ep_client_exit ep = None"
      and "ep_list_tools ep \<noteq> Inl CancelledError"
      and "ep_list_resources ep \<noteq> Inl CancelledError"
      and "ep_list_prompts ep \<noteq> Inl CancelledError"
  shows "discover_session ep
           = (case ep_list_resources ep of
                Inr (r # rs) \<Rightarrow> Inl ValidationError
              | _ \<Rightarrow>
                  Inr \<lparr>tools = (case ep_list_tools ep of
                                   Inl e \<Rightarrow> [] | Inr ts \<Rightarrow> map tool_of_sdk ts),
                       resources = [],
                       prompts =
                         (case ep_list_prompts ep of
                            Inl e \<Rightarrow> []
                          | Inr ps \<Rightarrow>
                              if list_all (\<lambda>p. sp_arguments p \<noteq> None) ps
                              then map (\<lambda>p. \<lparr>prompt_name = sp_name p,
                                              prompt_description = sp_description p,
                                              prompt_arguments = Some (JArr
                                                (map arg_of_sdk (the (sp_arguments p))))\<rparr>) ps
                              else [])\<rparr>)"
proof -
  have "discover_session ep
          = MCPServerCapabilities
              (case ep_list_tools ep of Inl e \<Rightarrow> [] | Inr ts \<Rightarrow> map tool_of_sdk ts)
              (map resource_of_sdk (case ep_list_resources ep of Inl e \<Rightarrow> [] | Inr rs \<Rightarrow> rs))
              (case ep_list_prompts ep of
                 Inl e \<Rightarrow> []
               | Inr ps \<Rightarrow>
                   if list_all (\<lambda>p. sp_arguments p \<noteq> None) ps
                   then map (\<lambda>p. \<lparr>prompt_name = sp_name p,
                                   prompt_description = sp_description p,
                                   prompt_arguments = Some (JArr
                                     (map arg_of_sdk (the (sp_arguments p))))\<rparr>) ps
                   else [])"
    using assms
    by (simp add: discover_session_def leaving_def discover_body_def best_effort_total
          best_effort_prompts split: sum.splits)
  then show ?thesis
  proof (cases "ep_list_resources ep")
    case (Inl e)
    then show ?thesis
      by (simp add: \<open>discover_session ep = _\<close> MCPServerCapabilities_def)
  next
    case (Inr rs)
    then show ?thesis
      by (cases rs)
         (simp_all add: \<open>discover_session ep = _\<close> MCPServerCapabilities_def
            MCPResourceCapability_def resource_of_sdk_def)
  qed
qed

lemma discovery_result:
  assumes "ty = ''stdio'' \<and> dict_get config ''command'' = Some (JStr cmd) \<and> cmd \<noteq> [] \<and>
             str_list (args_of config) \<and> str_dict_or_none (dict_get config ''env'') \<or>
           ty \<in> set [''http'', ''sse''] \<and> dict_get config ''url'' = Some url \<and> truthy url"
      and "ep_open (w ty config) = None" and "ep_session_enter (w ty config) = None"
      and "ep_initialize (w ty config) = None"
      and "ep_session_exit (w ty config) = None" and "ep_client_exit (w ty config) = None"
      and "ep_list_tools (w ty config) \<noteq> Inl CancelledError"
      and "ep_list_resources (w ty config) \<noteq> Inl CancelledError"
      and "ep_list_prompts (w ty config) \<noteq> Inl CancelledError"
  shows "discover_capabilities w ty config
           = (case ep_list_resources (w ty config) of
                Inr (r # rs) \<Rightarrow> Inl MCPClientError
              | _ \<Rightarrow>
                  Inr \<lparr>tools = (case ep_list_tools (w ty config) of
                                   Inl e \<Rightarrow> [] | Inr ts \<Rightarrow> map tool_of_sdk ts),
                       resources = [],
                       prompts =
                         (case ep_list_prompts (w ty config) of
                            Inl e \<Rightarrow> []
                          | Inr ps \<Rightarrow>
                              if list_all (\<lambda>p. sp_arguments p \<noteq> None) ps
                              then map (\<lambda>p. \<lparr>prompt_name = sp_name p,
                                              prompt_description = sp_description p,
                                              prompt_arguments = Some (JArr
                                                (map arg_of_sdk (the (sp_arguments p))))\<rparr>) ps
                              else [])\<rparr>)"
proof -
  note s = discover_session_result [OF assms(2-9)]
  have d: "discover_capabilities w ty config = as_client_error (discover_session (w ty config))"
    using assms(1)
    by (auto simp: discover_capabilities_def discover_stdio_capabilities_def
          discover_http_capabilities_def StdioServerParameters_def is_str_def)
  show ?thesis
  proof (cases "ep_list_resources (w ty config)")
    case (Inl e)
    then show ?thesis by (simp add: d s as_client_error_def)
  next
    case (Inr rs)
    then show ?thesis by (cases rs) (simp_all add: d s as_client_error_def)
  qed
qed

text \<open>
  The best-effort part at work: the server lists a tool and two prompts and raises on
  \<^verbatim>\<open>resources/list\<close>. The second prompt has two arguments; the \<^verbatim>\<open>required\<close> field of
  its second argument is \<^verbatim>\<open>None\<close> and is passed on as it is.
\<close>

lemma discovery_example:
  "ep_list_tools prompts_endpoint = Inr [echo_sdk_tool] \<and>
   ep_list_resources prompts_endpoint = Inl OtherException \<and>
   ep_list_prompts prompts_endpoint = Inr [greet_sdk_prompt, review_sdk_prompt] \<and>
   discover_capabilities prompts_world ''stdio'' echo_config
     = Inr \<lparr>tools = [\<lparr>tool_name = ''echo'', tool_description = Some ''Echo'',
                       tool_inputSchema = Some (JObj [(''type'', JStr ''object'')])\<rparr>],
            resources = [],
            prompts = [\<lparr>prompt_name = ''greet'', prompt_description = None,
                         prompt_arguments = Some (JArr [])\<rparr>,
                       \<lparr>prompt_name = ''review'', prompt_description = Some ''Review code'',
                         prompt_arguments = Some (JArr
                           [JObj [(''name'', JStr ''code''), (''description'', JStr ''The code''),
                                  (''required'', JBool True)],
                            JObj [(''name'', JStr ''style''), (''description'', JNull),
                                  (''required'', JNull)]])\<rparr>]\<rparr>"
  by code_simp

text \<open>
  C6, at the failing inputs. The claim: after open and initialize, a list call that
  fails gives the empty list for its kind and the discovery still returns the kinds
  that succeeded. In the first case \<^verbatim>\<open>tools/list\<close> raises while \<^verbatim>\<open>resources/list\<close>
  and \<^verbatim>\<open>prompts/list\<close> return one item each; the resource dictionary carries the
  SDK's URL object under \<^verbatim>\<open>uri\<close>, the construction of the result refuses it, and
  the whole discovery fails with \<^verbatim>\<open>MCPClientError\<close>, for a stdio server and for an
  http server. In the second case \<^verbatim>\<open>resources/list\<close> raises while \<^verbatim>\<open>tools/list\<close>
  and \<^verbatim>\<open>prompts/list\<close> return; one of the three prompts has \<^verbatim>\<open>arguments = None\<close>,
  and the discovery returns no prompt at all.
\<close>

theorem discovery_loses_listed_kinds:
  "ep_open resource_endpoint = None \<and> ep_session_enter resource_endpoint = None \<and>
   ep_initialize resource_endpoint = None \<and>
   ep_list_tools resource_endpoint = Inl OtherException \<and>
   ep_list_resources resource_endpoint = Inr [readme_sdk_resource] \<and>
   ep_list_prompts resource_endpoint = Inr [greet_sdk_prompt] \<and>
   discover_capabilities resource_world ''stdio'' echo_config = Inl MCPClientError \<and>
   discover_capabilities resource_world ''http'' http_config = Inl MCPClientError \<and>
   ep_open plain_prompt_endpoint = None \<and> ep_session_enter plain_prompt_endpoint = None \<and>
   ep_initialize plain_prompt_endpoint = None \<and>
   ep_list_tools plain_prompt_endpoint = Inr [echo_sdk_tool] \<and>
   ep_list_resources plain_prompt_endpoint = Inl OtherException \<and>
   ep_list_prompts plain_prompt_endpoint
     = Inr [greet_sdk_prompt, review_sdk_prompt, plain_sdk_prompt] \<and>
   sp_arguments plain_sdk_prompt = None \<and>
   discover_capabilities plain_prompt_world ''stdio'' echo_config
     = Inr \<lparr>tools = [echo_tool], resources = [], prompts = []\<rparr>"
  by code_simp

section \<open>The gateway message endpoint\<close>

text \<open>
  C8. When the server id resolves to a pooled or newly opened connection: a method
  outside the six supported ones is answered with the JSON-RPC error -32601, and
  \<^verbatim>\<open>tools/call\<close> or \<^verbatim>\<open>prompts/get\<close> without \<^verbatim>\<open>name\<close>, or \<^verbatim>\<open>resources/read\<close>
  without \<^verbatim>\<open>uri\<close>, with the error -32602; each response carries the request's id as
  it came and no result, and no call is made on the session.
\<close>

theorem gateway_protocol_errors:
  assumes "get_connection w db m i now = (Inr conn, m')"
  shows "(rq_method msg \<notin> set [''tools/list'', ''resources/list'', ''prompts/list'',
                               ''tools/call'', ''resources/read'', ''prompts/get''] \<longrightarrow>
            gateway_message_proxy w db m i msg now
              = (Inr \<lparr>rs_jsonrpc = ''2.0'', rs_id = rq_id msg, rs_result = None,
                      rs_error = Some \<lparr>e_code = - 32601,
                                        e_message = ''Method not found: '' @ rq_method msg,
                                        e_data = None\<rparr>\<rparr>, m')) \<and>
         (rq_method msg \<in> set [''tools/call'', ''prompts/get''] \<and> param msg ''name'' = None \<longrightarrow>
            gateway_message_proxy w db m i msg now
              = (Inr \<lparr>rs_jsonrpc = ''2.0'', rs_id = rq_id msg, rs_result = None,
                      rs_error = Some \<lparr>e_code = - 32602,
                                        e_message = ''Missing required parameter: name'',
                                        e_data = None\<rparr>\<rparr>, m')) \<and>
         (rq_method msg = ''resources/read'' \<and> param msg ''uri'' = None \<longrightarrow>
            gateway_message_proxy w db m i msg now
              = (Inr \<lparr>rs_jsonrpc = ''2.0'', rs_id = rq_id msg, rs_result = None,
                      rs_error = Some \<lparr>e_code = - 32602,
                                        e_message = ''Missing required parameter: uri'',
                                        e_data = None\<rparr>\<rparr>, m'))"
  using assms
  by (auto simp: gateway_message_proxy_def dispatch_message_def rpc_error_def py_not_def Let_def)

theorem gateway_protocol_errors_witness:
  "fst (get_connection up_world file_db empty_manager ''s1'' 100)
     = Inr (MCPConnection_init ''s1'' ''stdio'' echo_config 1 0 1 100) \<and>
   fst (gateway_message_proxy up_world file_db empty_manager ''s1''
          \<lparr>rq_jsonrpc = ''2.0'', rq_id = Some (IdInt 7), rq_method = ''bogus/method'',
           rq_params = None\<rparr> 100)
     = Inr \<lparr>rs_jsonrpc = ''2.0'', rs_id = Some (IdInt 7), rs_result = None,
            rs_error = Some \<lparr>e_code = - 32601, e_message = ''Method not found: bogus/method'',
                              e_data = None\<rparr>\<rparr> \<and>
   fst (gateway_message_proxy up_world file_db empty_manager ''s1''
          \<lparr>rq_jsonrpc = ''2.0'', rq_id = Some (IdStr ''a''), rq_method = ''tools/call'',
           rq_params = Some [(''arguments'', JObj [])]\<rparr> 100)
     = Inr \<lparr>rs_jsonrpc = ''2.0'', rs_id = Some (IdStr ''a''), rs_result = None,
            rs_error = Some \<lparr>e_code = - 32602, e_message = ''Missing required parameter: name'',
                              e_data = None\<rparr>\<rparr> \<and>
   fst (gateway_message_proxy up_world file_db empty_manager ''s1''
          \<lparr>rq_jsonrpc = ''2.0'', rq_id = None, rq_method = ''resources/read'',
           rq_params = None\<rparr> 100)
     = Inr \<lparr>rs_jsonrpc = ''2.0'', rs_id = None, rs_result = None,
            rs_error = Some \<lparr>e_code = - 32602, e_message = ''Missing required parameter: uri'',
                              e_data = None\<rparr>\<rparr>"
proof -
  have h1: "fst (get_connection up_world file_db empty_manager ''s1'' 100)
     = Inr (MCPConnection_init ''s1'' ''stdio'' echo_config 1 0 1 100)"
    by code_simp
  then have h: "get_connection up_world file_db empty_manager ''s1'' 100
     = (Inr (MCPConnection_init ''s1'' ''stdio'' echo_config 1 0 1 100),
        snd (get_connection up_world file_db empty_manager ''s1'' 100))"
    by (simp add: prod_eq_iff)
  note g = gateway_protocol_errors [OF h]
  from g [of "\<lparr>rq_jsonrpc = ''2.0'', rq_id = Some (IdInt 7), rq_method = ''bogus/method'',
               rq_params = None\<rparr>"]
       g [of "\<lparr>rq_jsonrpc = ''2.0'', rq_id = Some (IdStr ''a''), rq_method = ''tools/call'',
               rq_params = Some [(''arguments'', JObj [])]\<rparr>"]
       g [of "\<lparr>rq_jsonrpc = ''2.0'', rq_id = None, rq_method = ''resources/read'',
               rq_params = None\<rparr>"]
       h1
  show ?thesis by (simp add: param_def)
qed

section \<open>Concurrent calls of get\_connection\<close>

lemma set_update_all:
  assumes "\<forall>t \<in> set xs. Q t" and "Q y"
  shows "\<forall>t \<in> set (xs[k := y]). Q t"
proof -
  have "set (xs[k := y]) \<subseteq> insert y (set xs)" by (rule set_update_subset_insert)
  with assms show ?thesis by blast
qed

lemma filter_update_count:
  "k < length xs \<Longrightarrow>
   length (filter P (xs[k := y])) + (if P (xs ! k) then 1 else 0)
     = length (filter P xs) + (if P y then 1 else 0)"
proof (induction xs arbitrary: k)
  case Nil
  then show ?case by simp
next
  case (Cons x xs)
  show ?case
  proof (cases k)
    case 0
    then show ?thesis by simp
  next
    case (Suc j)
    with Cons.prems have "j < length xs" by simp
    from Cons.IH [OF this] Suc show ?thesis by simp
  qed
qed

lemma opening_positive:
  "k < length xs \<Longrightarrow> is_opening (xs ! k) \<Longrightarrow> length (filter is_opening xs) \<noteq> 0"
  by (metis filter_empty_conv length_0_conv nth_mem)

text \<open>Every turn ends by moving the task to its next point in a changed system.\<close>

lemma set_task_single_flight:
  assumes k: "k < length (tasks s)" and same: "tasks s' = tasks s"
      and healthy: "\<forall>conn. connections (manager s') i = Some conn \<longrightarrow> c_is_healthy conn"
      and closing: "\<forall>t \<in> set (tasks s). \<not> is_closing t" "\<not> is_closing t'"
      and count: "length (filter is_opening (tasks s)) + (if is_opening t' then 1 else 0)
                    = (if lock_held s' then 1 else 0) + (if is_opening (tasks s ! k) then 1 else 0)"
  shows "single_flight i (set_task k t' s')"
proof -
  have 1: "\<forall>t \<in> set ((tasks s)[k := t']). \<not> is_closing t"
    using closing by (rule set_update_all)
  have 2: "length (filter is_opening ((tasks s)[k := t'])) = (if lock_held s' then 1 else 0)"
    using filter_update_count [OF k, of is_opening t'] count by (simp split: if_splits)
  from healthy 1 2 same show ?thesis
    by (simp add: single_flight_def set_task_def)
qed

lemma single_flight_holder:
  assumes "single_flight i s" and "k < length (tasks s)" and "is_opening (tasks s ! k)"
  shows "lock_held s \<and> length (filter is_opening (tasks s)) = 1"
proof -
  from opening_positive [OF assms(2,3)] assms(1) show ?thesis
    by (simp add: single_flight_def split: if_splits)
qed

text \<open>The locked section, entered with the lock just taken and no task opening.\<close>

lemma locked_section_single_flight:
  assumes k: "k < length (tasks s)" and nk: "\<not> is_opening (tasks s ! k)"
      and h: "\<forall>conn. connections (manager s) i = Some conn \<longrightarrow> c_is_healthy conn"
      and c: "\<forall>t \<in> set (tasks s). \<not> is_closing t"
      and n: "length (filter is_opening (tasks s)) = 0"
      and held: "lock_held s"
  shows "single_flight i (locked_section db i now k s)"
proof (cases "connections (manager s) i")
  case (Some conn)
  then have eq: "locked_section db i now k s
      = set_task k (Returned (update_activity now conn))
          (s\<lparr>manager := (manager s)\<lparr>connections :=
                 (connections (manager s))(i \<mapsto> update_activity now conn)\<rparr>,
             lock_held := False\<rparr>)"
    by (simp add: locked_section_def Let_def)
  from h Some have "c_is_healthy (update_activity now conn)" by (simp add: update_activity_def)
  with k nk c n show ?thesis
    unfolding eq by (intro set_task_single_flight [where s = s]) simp_all
next
  case None
  show ?thesis
  proof (cases "get_mcp_server db i")
    case none: None
    with None have eq: "locked_section db i now k s
        = set_task k (Raised ValueError) (s\<lparr>lock_held := False\<rparr>)"
      by (simp add: locked_section_def Let_def raise_locked_def)
    from k nk c n h show ?thesis
      unfolding eq by (intro set_task_single_flight [where s = s]) simp_all
  next
    case (Some server)
    show ?thesis
    proof (cases "connect_target server")
      case (Inl e)
      with None Some have eq: "locked_section db i now k s
          = set_task k (Raised (if e = CancelledError then e else ConnectionError))
              (s\<lparr>lock_held := False\<rparr>)"
        by (simp add: locked_section_def Let_def raise_locked_def connect_failed_def)
      from k nk c n h show ?thesis
        unfolding eq by (intro set_task_single_flight [where s = s]) simp_all
    next
      case (Inr tc)
      obtain ty cfg where tc: "tc = (ty, cfg)" by (cases tc)
      with Inr None Some have eq: "locked_section db i now k s
          = set_task k (Entering_client ty cfg (allocated (manager s)))
              (s\<lparr>manager := (manager s)\<lparr>allocated := allocated (manager s) + 1\<rparr>,
                 opens := opens s + 1\<rparr>)"
        by (simp add: locked_section_def Let_def)
      from k nk c n h held show ?thesis
        unfolding eq by (intro set_task_single_flight [where s = s]) simp_all
    qed
  qed
qed

lemma acquire_single_flight:
  assumes inv: "single_flight i s" and k: "k < length (tasks s)"
      and nk: "\<not> is_opening (tasks s ! k)"
  shows "single_flight i (acquire db i now k s)"
proof (cases "lock_held s")
  case True
  then have eq: "acquire db i now k s
      = set_task k Waiting
          (s\<lparr>manager := (manager s)\<lparr>locks := insert i (locks (manager s))\<rparr>\<rparr>)"
    by (simp add: acquire_def Let_def)
  from inv k nk True show ?thesis
    unfolding eq by (intro set_task_single_flight [where s = s]) (simp_all add: single_flight_def)
next
  case False
  let ?s = "s\<lparr>manager := (manager s)\<lparr>locks := insert i (locks (manager s))\<rparr>,
              lock_held := True\<rparr>"
  from inv False k nk have "single_flight i (locked_section db i now k ?s)"
    by (intro locked_section_single_flight) (simp_all add: single_flight_def)
  with False show ?thesis by (simp add: acquire_def Let_def)
qed

lemma connect_failed_single_flight:
  assumes inv: "single_flight i s" and k: "k < length (tasks s)"
      and op: "is_opening (tasks s ! k)"
  shows "single_flight i (connect_failed k e s)"
proof -
  have eq: "connect_failed k e s
      = set_task k (Raised (if e = CancelledError then e else ConnectionError))
          (s\<lparr>lock_held := False\<rparr>)"
    by (simp add: connect_failed_def raise_locked_def)
  from single_flight_holder [OF inv k op] inv k op show ?thesis
    unfolding eq by (intro set_task_single_flight [where s = s]) (simp_all add: single_flight_def)
qed

lemma step_single_flight:
  assumes inv: "single_flight i s"
  shows "single_flight i (step w db i turn s)"
proof (cases "fst turn < length (tasks s)")
  case False
  with inv show ?thesis by (simp add: step_def Let_def)
next
  case True
  let ?k = "fst turn"
  let ?now = "snd turn"
  from True have "tasks s ! ?k \<in> set (tasks s)" by simp
  with inv have nc: "\<not> is_closing (tasks s ! ?k)" by (simp add: single_flight_def)
  from inv have h: "\<forall>conn. connections (manager s) i = Some conn \<longrightarrow> c_is_healthy conn"
    and c: "\<forall>t \<in> set (tasks s). \<not> is_closing t"
    and n: "length (filter is_opening (tasks s)) = (if lock_held s then 1 else 0)"
    by (simp_all add: single_flight_def)
  show ?thesis
  proof (cases "tasks s ! ?k")
    case Start
    show ?thesis
    proof (cases "connections (manager s) i")
      case None
      with Start True have "step w db i turn s = acquire db i ?now ?k s"
        by (simp add: step_def Let_def)
      with Start acquire_single_flight [OF inv True, of db ?now] show ?thesis by simp
    next
      case (Some conn)
      with h have hc: "c_is_healthy conn" by simp
      with Some Start True have eq: "step w db i turn s
          = set_task ?k (Returned (update_activity ?now conn))
              (s\<lparr>manager := (manager s)\<lparr>connections :=
                     (connections (manager s))(i \<mapsto> update_activity ?now conn)\<rparr>\<rparr>)"
        by (simp add: step_def Let_def)
      from hc have "c_is_healthy (update_activity ?now conn)" by (simp add: update_activity_def)
      with True Start c n show ?thesis
        unfolding eq by (intro set_task_single_flight [where s = s]) simp_all
    qed
  next
    case (Closing_session conn)
    with nc show ?thesis by simp
  next
    case (Closing_client conn)
    with nc show ?thesis by simp
  next
    case Waiting
    show ?thesis
    proof (cases "lock_held s")
      case held: True
      with Waiting True inv show ?thesis by (simp add: step_def Let_def)
    next
      case False
      with Waiting True have eq: "step w db i turn s
          = locked_section db i ?now ?k (s\<lparr>lock_held := True\<rparr>)"
        by (simp add: step_def Let_def)
      from True Waiting h c n False show ?thesis
        unfolding eq by (intro locked_section_single_flight) simp_all
    qed
  next
    case (Entering_client ty cfg c0)
    then have op: "is_opening (tasks s ! ?k)" by simp
    note held = single_flight_holder [OF inv True op]
    show ?thesis
    proof (cases "ep_open (w ty cfg)")
      case None
      with Entering_client True have eq: "step w db i turn s
          = set_task ?k (Entering_session ty cfg c0 (allocated (manager s)))
              (s\<lparr>manager := (manager s)\<lparr>allocated := allocated (manager s) + 1,
                     trace := trace (manager s) @ [ClientEnter c0]\<rparr>\<rparr>)"
        by (simp add: step_def Let_def)
      from True op h c held show ?thesis
        unfolding eq by (intro set_task_single_flight [where s = s]) simp_all
    next
      case (Some e)
      with Entering_client True have "step w db i turn s = connect_failed ?k e s"
        by (simp add: step_def Let_def)
      with connect_failed_single_flight [OF inv True op, of e] show ?thesis by simp
    qed
  next
    case (Entering_session ty cfg c0 x)
    then have op: "is_opening (tasks s ! ?k)" by simp
    note held = single_flight_holder [OF inv True op]
    show ?thesis
    proof (cases "ep_session_enter (w ty cfg)")
      case None
      with Entering_session True have eq: "step w db i turn s
          = set_task ?k (Initializing ty cfg c0 x)
              (s\<lparr>manager := (manager s)\<lparr>trace := trace (manager s) @ [SessionEnter x]\<rparr>\<rparr>)"
        by (simp add: step_def Let_def)
      from True op h c held show ?thesis
        unfolding eq by (intro set_task_single_flight [where s = s]) simp_all
    next
      case (Some e)
      with Entering_session True have "step w db i turn s = connect_failed ?k e s"
        by (simp add: step_def Let_def)
      with connect_failed_single_flight [OF inv True op, of e] show ?thesis by simp
    qed
  next
    case (Initializing ty cfg c0 x)
    then have op: "is_opening (tasks s ! ?k)" by simp
    note held = single_flight_holder [OF inv True op]
    show ?thesis
    proof (cases "ep_initialize (w ty cfg)")
      case None
      with Initializing True have eq: "step w db i turn s
          = set_task ?k (Returned (MCPConnection_init i ty cfg x c0 x ?now))
              (s\<lparr>manager := (manager s)\<lparr>trace := trace (manager s) @ [SessionInitialize x],
                     connections := (connections (manager s))(i \<mapsto>
                        MCPConnection_init i ty cfg x c0 x ?now)\<rparr>,
                 lock_held := False\<rparr>)"
        by (simp add: step_def Let_def)
      from True op c held show ?thesis
        unfolding eq
        by (intro set_task_single_flight [where s = s]) (simp_all add: MCPConnection_init_def)
    next
      case (Some e)
      with Initializing True have "step w db i turn s = connect_failed ?k e s"
        by (simp add: step_def Let_def)
      with connect_failed_single_flight [OF inv True op, of e] show ?thesis by simp
    qed
  next
    case (Returned conn)
    with True inv show ?thesis by (simp add: step_def Let_def)
  next
    case (Raised e)
    with True inv show ?thesis by (simp add: step_def Let_def)
  qed
qed

lemma run_single_flight:
  "single_flight i s \<Longrightarrow> single_flight i (run w db i turns s)"
  by (induction turns arbitrary: s) (simp_all add: step_single_flight)

lemma calls_single_flight:
  "connections m i = None \<Longrightarrow> single_flight i (calls n m)"
  by (simp add: single_flight_def calls_def)

text \<open>
  The turn-by-turn model and \<open>get_connection\<close> agree: a single call on a pool without
  an entry for the id, given four turns with nothing in between, ends as
  \<open>get_connection\<close> does, leaves the same manager, and has released the lock.
\<close>

lemma step_finished:
  "tasks s = [Raised e] \<or> tasks s = [Returned c] \<Longrightarrow> step w db i turn s = s"
  by (cases "fst turn") (auto simp: step_def Let_def)

lemma run_finished:
  "tasks s = [Raised e] \<or> tasks s = [Returned c] \<Longrightarrow> run w db i turns s = s"
  by (induction turns) (simp_all add: step_finished)

lemma lone_call_agrees:
  assumes cold: "connections m i = None"
  shows "tasks (run w db i [(0, now), (0, now), (0, now), (0, now)] (calls 1 m))
           = [case fst (get_connection w db m i now) of
                Inr conn \<Rightarrow> Returned conn | Inl e \<Rightarrow> Raised e] \<and>
         manager (run w db i [(0, now), (0, now), (0, now), (0, now)] (calls 1 m))
           = snd (get_connection w db m i now) \<and>
         \<not> lock_held (run w db i [(0, now), (0, now), (0, now), (0, now)] (calls 1 m))"
proof -
  let ?m = "m\<lparr>locks := insert i (locks m)\<rparr>"
  let ?s = "\<lparr>manager = ?m, lock_held = True, tasks = [Start], opens = 0\<rparr>"
  let ?turns = "[(0, now), (0, now), (0, now)]"
  from cold have g: "get_connection w db m i now = create_connection w db ?m i now"
    by (simp add: get_connection_def Let_def)
  from cold have s1: "step w db i (0, now) (calls 1 m) = locked_section db i now 0 ?s"
    by (simp add: step_def calls_def acquire_def Let_def)
  have r: "run w db i [(0, now), (0, now), (0, now), (0, now)] (calls 1 m)
             = run w db i ?turns (locked_section db i now 0 ?s)"
    by (simp only: run.simps s1)
  show ?thesis
  proof (cases "get_mcp_server db i")
    case None
    with cold have 1: "locked_section db i now 0 ?s
        = \<lparr>manager = ?m, lock_held = False, tasks = [Raised ValueError], opens = 0\<rparr>"
      by (simp add: locked_section_def raise_locked_def set_task_def Let_def)
    from None have 2: "create_connection w db ?m i now = (Inl ValueError, ?m)"
      by (simp add: create_connection_def)
    have f: "run w db i ?turns
               \<lparr>manager = ?m, lock_held = False, tasks = [Raised ValueError], opens = 0\<rparr>
             = \<lparr>manager = ?m, lock_held = False, tasks = [Raised ValueError], opens = 0\<rparr>"
      by (rule run_finished) simp
    show ?thesis unfolding r g 1 2 f by simp
  next
    case (Some server)
    note cc = create_connection_target [OF Some, of w ?m now]
    show ?thesis
    proof (cases "connect_target server")
      case (Inl e)
      with Some cold connect_target_error [OF Inl] have 1: "locked_section db i now 0 ?s
          = \<lparr>manager = ?m, lock_held = False, tasks = [Raised ConnectionError], opens = 0\<rparr>"
        by (simp add: locked_section_def connect_failed_def raise_locked_def set_task_def Let_def)
      from Inl have 2: "create_connection w db ?m i now = (Inl ConnectionError, ?m)"
        by (simp add: cc)
      have f: "run w db i ?turns
                 \<lparr>manager = ?m, lock_held = False, tasks = [Raised ConnectionError], opens = 0\<rparr>
               = \<lparr>manager = ?m, lock_held = False, tasks = [Raised ConnectionError], opens = 0\<rparr>"
        by (rule run_finished) simp
      show ?thesis unfolding r g 1 2 f by simp
    next
      case (Inr tc)
      obtain ty cfg where tc: "tc = (ty, cfg)" by (cases tc)
      let ?e = "\<lambda>e. if e = CancelledError then e else ConnectionError"
      let ?m2 = "?m\<lparr>allocated := allocated m + 1\<rparr>"
      let ?s2 = "\<lparr>manager = ?m2, lock_held = True,
                   tasks = [Entering_client ty cfg (allocated m)], opens = 1\<rparr>"
      from Some Inr tc cold have 1: "locked_section db i now 0 ?s = ?s2"
        by (simp add: locked_section_def set_task_def Let_def)
      from Inr tc have 2: "create_connection w db ?m i now
          = (case open_connection (w ty cfg) ?m i ty cfg now of
               (Inr conn, m') \<Rightarrow> (Inr conn, m'\<lparr>connections := (connections m')(i \<mapsto> conn)\<rparr>)
             | (Inl e, m') \<Rightarrow> (if e = CancelledError then Inl e else Inl ConnectionError, m'))"
        by (simp add: cc)
      have r2: "run w db i ?turns ?s2 = run w db i [(0, now), (0, now)] (step w db i (0, now) ?s2)"
        by simp
      show ?thesis
      proof (cases "ep_open (w ty cfg)")
        case (Some e)
        then have 3: "step w db i (0, now) ?s2
            = \<lparr>manager = ?m2, lock_held = False, tasks = [Raised (?e e)], opens = 1\<rparr>"
          by (simp add: step_def connect_failed_def raise_locked_def set_task_def Let_def)
        from Some have 4: "open_connection (w ty cfg) ?m i ty cfg now = (Inl e, ?m2)"
          by (simp add: open_connection_def Let_def)
        have f: "run w db i [(0, now), (0, now)]
                   \<lparr>manager = ?m2, lock_held = False, tasks = [Raised (?e e)], opens = 1\<rparr>
                 = \<lparr>manager = ?m2, lock_held = False, tasks = [Raised (?e e)], opens = 1\<rparr>"
          by (rule run_finished) simp
        show ?thesis unfolding r g 1 2 r2 3 4 f by simp
      next
        case None
        note o1 = None
        let ?m3 = "?m2\<lparr>allocated := allocated m + 2, trace := trace m @ [ClientEnter (allocated m)]\<rparr>"
        let ?s3 = "\<lparr>manager = ?m3, lock_held = True,
                     tasks = [Entering_session ty cfg (allocated m) (allocated m + 1)], opens = 1\<rparr>"
        from o1 have 3: "step w db i (0, now) ?s2 = ?s3"
          by (simp add: step_def set_task_def Let_def)
        have r3: "run w db i [(0, now), (0, now)] ?s3
                    = run w db i [(0, now)] (step w db i (0, now) ?s3)"
          by simp
        show ?thesis
        proof (cases "ep_session_enter (w ty cfg)")
          case (Some e)
          then have 4: "step w db i (0, now) ?s3
              = \<lparr>manager = ?m3, lock_held = False, tasks = [Raised (?e e)], opens = 1\<rparr>"
            by (simp add: step_def connect_failed_def raise_locked_def set_task_def Let_def)
          from o1 Some have 5: "open_connection (w ty cfg) ?m i ty cfg now = (Inl e, ?m3)"
            by (simp add: open_connection_def Let_def)
          have f: "run w db i [(0, now)]
                     \<lparr>manager = ?m3, lock_held = False, tasks = [Raised (?e e)], opens = 1\<rparr>
                   = \<lparr>manager = ?m3, lock_held = False, tasks = [Raised (?e e)], opens = 1\<rparr>"
            by (rule run_finished) simp
          show ?thesis unfolding r g 1 2 r2 3 r3 4 5 f by simp
        next
          case None
          note o2 = None
          let ?m4 = "?m3\<lparr>trace := trace m @ [ClientEnter (allocated m),
                                                 SessionEnter (allocated m + 1)]\<rparr>"
          let ?s4 = "\<lparr>manager = ?m4, lock_held = True,
                       tasks = [Initializing ty cfg (allocated m) (allocated m + 1)], opens = 1\<rparr>"
          from o2 have 4: "step w db i (0, now) ?s3 = ?s4"
            by (simp add: step_def set_task_def Let_def)
          have r4: "run w db i [(0, now)] ?s4 = step w db i (0, now) ?s4"
            by simp
          show ?thesis
          proof (cases "ep_initialize (w ty cfg)")
            case (Some e)
            then have 5: "step w db i (0, now) ?s4
                = \<lparr>manager = ?m4, lock_held = False, tasks = [Raised (?e e)], opens = 1\<rparr>"
              by (simp add: step_def connect_failed_def raise_locked_def set_task_def Let_def)
            from o1 o2 Some have 6: "open_connection (w ty cfg) ?m i ty cfg now = (Inl e, ?m4)"
              by (simp add: open_connection_def Let_def)
            show ?thesis unfolding r g 1 2 r2 3 r3 4 r4 5 6 by simp
          next
            case None
            let ?c = "MCPConnection_init i ty cfg (allocated m + 1) (allocated m)
                        (allocated m + 1) now"
            let ?m5 = "?m4\<lparr>trace := trace m @ [ClientEnter (allocated m),
                                                   SessionEnter (allocated m + 1),
                                                   SessionInitialize (allocated m + 1)]\<rparr>"
            from None have 5: "step w db i (0, now) ?s4
                = \<lparr>manager = ?m5\<lparr>connections := (connections m)(i \<mapsto> ?c)\<rparr>,
                   lock_held = False, tasks = [Returned ?c], opens = 1\<rparr>"
              by (simp add: step_def set_task_def Let_def)
            from o1 o2 None have 6: "open_connection (w ty cfg) ?m i ty cfg now = (Inr ?c, ?m5)"
              by (simp add: open_connection_def Let_def)
            show ?thesis unfolding r g 1 2 r2 3 r3 4 r4 5 6 by simp
          qed
        qed
      qed
    qed
  qed
qed


lemma set_task_opened_once:
  assumes same: "tasks s' = tasks s"
      and l: "lock_held s' \<longrightarrow> connections (manager s') i = None"
      and o: "opens s' = (if lock_held s' \<or> connections (manager s') i \<noteq> None then 1 else 0)"
      and r: "\<forall>t \<in> set (tasks s). \<forall>x. received t = Some x \<longrightarrow>
                map_option c_session (connections (manager s') i) = Some x"
      and r': "\<forall>x. received t' = Some x \<longrightarrow>
                map_option c_session (connections (manager s') i) = Some x"
  shows "opened_once i (set_task k t' s')"
proof -
  have "\<forall>t \<in> set ((tasks s)[k := t']). \<forall>x. received t = Some x \<longrightarrow>
          map_option c_session (connections (manager s') i) = Some x"
    using r r' by (rule set_update_all)
  with same l o show ?thesis
    by (simp add: opened_once_def set_task_def)
qed

lemma locked_section_opened_once:
  assumes held: "lock_held s"
      and o: "opens s = (if connections (manager s) i \<noteq> None then 1 else 0)"
      and r: "\<forall>t \<in> set (tasks s). \<forall>x. received t = Some x \<longrightarrow>
                map_option c_session (connections (manager s) i) = Some x"
  shows "opened_once i (locked_section db i now k s)"
proof (cases "connections (manager s) i")
  case (Some conn)
  then have eq: "locked_section db i now k s
      = set_task k (Returned (update_activity now conn))
          (s\<lparr>manager := (manager s)\<lparr>connections :=
                 (connections (manager s))(i \<mapsto> update_activity now conn)\<rparr>,
             lock_held := False\<rparr>)"
    by (simp add: locked_section_def Let_def)
  from Some o r show ?thesis
    unfolding eq
    by (intro set_task_opened_once [where s = s]) (simp_all add: update_activity_def)
next
  case None
  show ?thesis
  proof (cases "get_mcp_server db i")
    case none: None
    with None have eq: "locked_section db i now k s
        = set_task k (Raised ValueError) (s\<lparr>lock_held := False\<rparr>)"
      by (simp add: locked_section_def Let_def raise_locked_def)
    from None o r show ?thesis
      unfolding eq by (intro set_task_opened_once [where s = s]) simp_all
  next
    case (Some server)
    show ?thesis
    proof (cases "connect_target server")
      case (Inl e)
      with None Some have eq: "locked_section db i now k s
          = set_task k (Raised (if e = CancelledError then e else ConnectionError))
              (s\<lparr>lock_held := False\<rparr>)"
        by (simp add: locked_section_def Let_def raise_locked_def connect_failed_def)
      from None o r show ?thesis
        unfolding eq by (intro set_task_opened_once [where s = s]) simp_all
    next
      case (Inr tc)
      obtain ty cfg where tc: "tc = (ty, cfg)" by (cases tc)
      with Inr None Some have eq: "locked_section db i now k s
          = set_task k (Entering_client ty cfg (allocated (manager s)))
              (s\<lparr>manager := (manager s)\<lparr>allocated := allocated (manager s) + 1\<rparr>,
                 opens := opens s + 1\<rparr>)"
        by (simp add: locked_section_def Let_def)
      from None o r held show ?thesis
        unfolding eq by (intro set_task_opened_once [where s = s]) simp_all
    qed
  qed
qed

lemma acquire_opened_once:
  assumes inv: "opened_once i s"
  shows "opened_once i (acquire db i now k s)"
proof -
  from inv have l: "lock_held s \<longrightarrow> connections (manager s) i = None"
    and o: "opens s = (if lock_held s \<or> connections (manager s) i \<noteq> None then 1 else 0)"
    and r: "\<forall>t \<in> set (tasks s). \<forall>x. received t = Some x \<longrightarrow>
              map_option c_session (connections (manager s) i) = Some x"
    by (simp_all add: opened_once_def)
  show ?thesis
  proof (cases "lock_held s")
    case True
    then have eq: "acquire db i now k s
        = set_task k Waiting
            (s\<lparr>manager := (manager s)\<lparr>locks := insert i (locks (manager s))\<rparr>\<rparr>)"
      by (simp add: acquire_def Let_def)
    from l o r show ?thesis
      unfolding eq by (intro set_task_opened_once [where s = s]) simp_all
  next
    case False
    let ?s = "s\<lparr>manager := (manager s)\<lparr>locks := insert i (locks (manager s))\<rparr>,
                lock_held := True\<rparr>"
    from o r False have "opened_once i (locked_section db i now k ?s)"
      by (intro locked_section_opened_once) simp_all
    with False show ?thesis by (simp add: acquire_def Let_def)
  qed
qed

lemma step_opened_once:
  assumes good: "\<forall>ty cfg. ep_open (w ty cfg) = None \<and> ep_session_enter (w ty cfg) = None \<and>
                          ep_initialize (w ty cfg) = None"
      and sf: "single_flight i s" and inv: "opened_once i s"
  shows "opened_once i (step w db i turn s)"
proof (cases "fst turn < length (tasks s)")
  case False
  with inv show ?thesis by (simp add: step_def Let_def)
next
  case True
  let ?k = "fst turn"
  let ?now = "snd turn"
  from True have "tasks s ! ?k \<in> set (tasks s)" by simp
  with sf have nc: "\<not> is_closing (tasks s ! ?k)" by (simp add: single_flight_def)
  from sf have h: "\<forall>conn. connections (manager s) i = Some conn \<longrightarrow> c_is_healthy conn"
    by (simp add: single_flight_def)
  from inv have l: "lock_held s \<longrightarrow> connections (manager s) i = None"
    and o: "opens s = (if lock_held s \<or> connections (manager s) i \<noteq> None then 1 else 0)"
    and r: "\<forall>t \<in> set (tasks s). \<forall>x. received t = Some x \<longrightarrow>
              map_option c_session (connections (manager s) i) = Some x"
    by (simp_all add: opened_once_def)
  show ?thesis
  proof (cases "tasks s ! ?k")
    case Start
    show ?thesis
    proof (cases "connections (manager s) i")
      case None
      with Start True have "step w db i turn s = acquire db i ?now ?k s"
        by (simp add: step_def Let_def)
      with acquire_opened_once [OF inv, of db ?now ?k] show ?thesis by simp
    next
      case (Some conn)
      with h have hc: "c_is_healthy conn" by simp
      with Some Start True have eq: "step w db i turn s
          = set_task ?k (Returned (update_activity ?now conn))
              (s\<lparr>manager := (manager s)\<lparr>connections :=
                     (connections (manager s))(i \<mapsto> update_activity ?now conn)\<rparr>\<rparr>)"
        by (simp add: step_def Let_def)
      from Some l o r show ?thesis
        unfolding eq
        by (intro set_task_opened_once [where s = s]) (simp_all add: update_activity_def)
    qed
  next
    case (Closing_session conn)
    with nc show ?thesis by simp
  next
    case (Closing_client conn)
    with nc show ?thesis by simp
  next
    case Waiting
    show ?thesis
    proof (cases "lock_held s")
      case held: True
      with Waiting True inv show ?thesis by (simp add: step_def Let_def)
    next
      case False
      with Waiting True have eq: "step w db i turn s
          = locked_section db i ?now ?k (s\<lparr>lock_held := True\<rparr>)"
        by (simp add: step_def Let_def)
      from o r False show ?thesis
        unfolding eq by (intro locked_section_opened_once) simp_all
    qed
  next
    case (Entering_client ty cfg c0)
    then have op: "is_opening (tasks s ! ?k)" by simp
    note held = single_flight_holder [OF sf True op]
    from good have "ep_open (w ty cfg) = None" by simp
    with Entering_client True have eq: "step w db i turn s
        = set_task ?k (Entering_session ty cfg c0 (allocated (manager s)))
            (s\<lparr>manager := (manager s)\<lparr>allocated := allocated (manager s) + 1,
                   trace := trace (manager s) @ [ClientEnter c0]\<rparr>\<rparr>)"
      by (simp add: step_def Let_def)
    from l o r show ?thesis
      unfolding eq by (intro set_task_opened_once [where s = s]) simp_all
  next
    case (Entering_session ty cfg c0 x)
    from good have "ep_session_enter (w ty cfg) = None" by simp
    with Entering_session True have eq: "step w db i turn s
        = set_task ?k (Initializing ty cfg c0 x)
            (s\<lparr>manager := (manager s)\<lparr>trace := trace (manager s) @ [SessionEnter x]\<rparr>\<rparr>)"
      by (simp add: step_def Let_def)
    from l o r show ?thesis
      unfolding eq by (intro set_task_opened_once [where s = s]) simp_all
  next
    case (Initializing ty cfg c0 x)
    then have op: "is_opening (tasks s ! ?k)" by simp
    note held = single_flight_holder [OF sf True op]
    from good have "ep_initialize (w ty cfg) = None" by simp
    with Initializing True have eq: "step w db i turn s
        = set_task ?k (Returned (MCPConnection_init i ty cfg x c0 x ?now))
            (s\<lparr>manager := (manager s)\<lparr>trace := trace (manager s) @ [SessionInitialize x],
                   connections := (connections (manager s))(i \<mapsto>
                      MCPConnection_init i ty cfg x c0 x ?now)\<rparr>,
               lock_held := False\<rparr>)"
      by (simp add: step_def Let_def)
    from held l have none: "connections (manager s) i = None" by simp
    with r have nobody: "\<forall>t \<in> set (tasks s). \<forall>y. received t \<noteq> Some y" by simp
    from held o nobody show ?thesis
      unfolding eq
      by (intro set_task_opened_once [where s = s]) (simp_all add: MCPConnection_init_def)
  next
    case (Returned conn)
    with True inv show ?thesis by (simp add: step_def Let_def)
  next
    case (Raised e)
    with True inv show ?thesis by (simp add: step_def Let_def)
  qed
qed

lemma run_opened_once:
  assumes good: "\<forall>ty cfg. ep_open (w ty cfg) = None \<and> ep_session_enter (w ty cfg) = None \<and>
                          ep_initialize (w ty cfg) = None"
  shows "single_flight i s \<Longrightarrow> opened_once i s \<Longrightarrow> opened_once i (run w db i turns s)"
proof (induction turns arbitrary: s)
  case Nil
  then show ?case by simp
next
  case (Cons turn turns)
  from step_single_flight [OF Cons.prems(1)] step_opened_once [OF good Cons.prems]
  have "single_flight i (step w db i turn s)" "opened_once i (step w db i turn s)" by simp_all
  from Cons.IH [OF this] show ?case by simp
qed

lemma calls_opened_once:
  "connections m i = None \<Longrightarrow> opened_once i (calls n m)"
  by (simp add: opened_once_def calls_def)

text \<open>
  C3 as stated fails when the open fails: two concurrent calls on an empty pool for a
  server that is down; the first takes the lock and starts an open, the second waits;
  the open fails, the lock is released, and the second call starts an open of its own.
  The transport open has run twice and no caller has a session.
\<close>

theorem concurrent_get_failed_open_counterexample:
  "connections empty_manager ''s1'' = None \<and>
   opens (run down_world file_db ''s1'' [(0, 1), (1, 2), (0, 3), (1, 4), (1, 5)]
            (calls 2 empty_manager)) = 2 \<and>
   tasks (run down_world file_db ''s1'' [(0, 1), (1, 2), (0, 3), (1, 4), (1, 5)]
            (calls 2 empty_manager)) = [Raised ConnectionError, Raised ConnectionError]"
  by (simp add: empty_manager_def) code_simp

text \<open>
  C3, amended. For any number of concurrent \<^verbatim>\<open>get_connection\<close> calls for one server
  id on a pool that holds no entry for it, and any schedule of their turns: at every
  moment at most one call is inside the open (single flight); and if no open step
  fails, the transport open is started at most once and all callers that have
  returned hold the same session object.
\<close>

theorem concurrent_get_opens_once:
  assumes "connections m i = None"
  shows "length (filter is_opening (tasks (run w db i turns (calls n m)))) \<le> 1 \<and>
         ((\<forall>ty cfg. ep_open (w ty cfg) = None \<and> ep_session_enter (w ty cfg) = None \<and>
                    ep_initialize (w ty cfg) = None) \<longrightarrow>
            opens (run w db i turns (calls n m)) \<le> 1 \<and>
            (\<forall>t \<in> set (tasks (run w db i turns (calls n m))).
             \<forall>u \<in> set (tasks (run w db i turns (calls n m))).
             \<forall>x y. received t = Some x \<and> received u = Some y \<longrightarrow> x = y))"
proof -
  let ?s = "run w db i turns (calls n m)"
  have sf: "single_flight i ?s"
    by (rule run_single_flight) (rule calls_single_flight [OF assms])
  then have a: "length (filter is_opening (tasks ?s)) \<le> 1"
    by (simp add: single_flight_def)
  have b: "opens ?s \<le> 1 \<and>
           (\<forall>t \<in> set (tasks ?s). \<forall>u \<in> set (tasks ?s).
              \<forall>x y. received t = Some x \<and> received u = Some y \<longrightarrow> x = y)"
    if good: "\<forall>ty cfg. ep_open (w ty cfg) = None \<and> ep_session_enter (w ty cfg) = None \<and>
                       ep_initialize (w ty cfg) = None"
  proof -
    have oo: "opened_once i ?s"
      by (rule run_opened_once [OF good calls_single_flight [OF assms]
            calls_opened_once [OF assms]])
    then have "opens ?s \<le> 1" by (simp add: opened_once_def)
    moreover have "x = y"
      if "t \<in> set (tasks ?s)" "u \<in> set (tasks ?s)" "received t = Some x" "received u = Some y"
      for t u x y
    proof -
      from oo that have "map_option c_session (connections (manager ?s) i) = Some x"
        "map_option c_session (connections (manager ?s) i) = Some y"
        by (auto simp: opened_once_def)
      then show ?thesis by simp
    qed
    ultimately show ?thesis by blast
  qed
  from a b show ?thesis by blast
qed

theorem concurrent_get_opens_once_witness:
  "connections empty_manager ''s1'' = None \<and>
   (\<forall>ty cfg. ep_open (up_world ty cfg) = None \<and> ep_session_enter (up_world ty cfg) = None \<and>
             ep_initialize (up_world ty cfg) = None) \<and>
   opens (run up_world file_db ''s1'' [(0, 1), (1, 2), (0, 3), (1, 4), (0, 5), (0, 6), (1, 7)]
            (calls 2 empty_manager)) = 1 \<and>
   map received (tasks (run up_world file_db ''s1''
                          [(0, 1), (1, 2), (0, 3), (1, 4), (0, 5), (0, 6), (1, 7)]
                          (calls 2 empty_manager))) = [Some 1, Some 1]"
proof -
  have c: "connections empty_manager ''s1'' = None" by (simp add: empty_manager_def)
  have g: "\<forall>ty cfg. ep_open (up_world ty cfg) = None \<and> ep_session_enter (up_world ty cfg) = None \<and>
                  ep_initialize (up_world ty cfg) = None"
    by (simp add: up_world_def up_endpoint_def)
  have r: "map received (tasks (run up_world file_db ''s1''
                          [(0, 1), (1, 2), (0, 3), (1, 4), (0, 5), (0, 6), (1, 7)]
                          (calls 2 empty_manager))) = [Some 1, Some 1]"
    by code_simp
  have p: "opens (run up_world file_db ''s1'' [(0, 1), (1, 2), (0, 3), (1, 4), (0, 5), (0, 6), (1, 7)]
            (calls 2 empty_manager)) \<noteq> 0"
    by code_simp
  from concurrent_get_opens_once [OF c, of up_world file_db "[(0, 1), (1, 2), (0, 3), (1, 4), (0, 5), (0, 6), (1, 7)]" 2] g
  have "opens (run up_world file_db ''s1'' [(0, 1), (1, 2), (0, 3), (1, 4), (0, 5), (0, 6), (1, 7)]
            (calls 2 empty_manager)) \<le> 1"
    by blast
  with p have "opens (run up_world file_db ''s1'' [(0, 1), (1, 2), (0, 3), (1, 4), (0, 5), (0, 6), (1, 7)]
            (calls 2 empty_manager)) = 1"
    by simp
  with c g r show ?thesis by blast
qed


end
